theory Spec2Isabelle
  imports Complex_Main
begin

section \<open>Numbers, random draws and faults of the runtime\<close>

text \<open>
  The services are roblox-ts classes; their numbers are Luau numbers. They are modelled
  as \<^typ>\<open>real\<close> (no NaN stored; sums and differences are exact, and the one
  quotient the code compares with a constant is rounded, see the ResourceService),
  integers drawn by \<open>math.random(m, n)\<close> as \<^typ>\<open>int\<close>. Every clock reading
  \<open>tick()\<close> is an argument of the operation that reads it.

  The generator behind \<open>math.random\<close> is a parameter: \<open>next_unit g k\<close> is the number
  the \<open>k\<close>-th call returns when it is \<open>math.random()\<close>, and \<open>next_int g k m n\<close> the
  integer it returns when it is \<open>math.random(m, n)\<close>. The call counter is threaded
  through the code. \<open>math.random(m, n)\<close> raises on an empty interval.
\<close>

datatype error = EmptyInterval

record rng =
  next_unit :: "nat \<Rightarrow> real"
  next_int :: "nat \<Rightarrow> int \<Rightarrow> int \<Rightarrow> int"

definition math_random :: "rng \<Rightarrow> nat \<Rightarrow> real \<times> nat" where
  "math_random g k = (next_unit g k, Suc k)"

definition math_random_range :: "rng \<Rightarrow> nat \<Rightarrow> int \<Rightarrow> int \<Rightarrow> error + int \<times> nat" where
  "math_random_range g k m n =
     (if n < m then Inl EmptyInterval else Inr (next_int g k m n, Suc k))"

section \<open>LootService: generateLootFromTable\<close>

text \<open>
  The table types of \<open>shared/definitions/Loot\<close>, as \<open>generateLootFromTable\<close> and
  \<open>calculateQuantity\<close> read them: an entry has \<open>drop\<close>, \<open>weight\<close>, \<open>quantity\<close>
  (a number or a pair of bounds) and the optional flag \<open>unique\<close> (absent reads as
  false); a table has \<open>entries\<close>, the pair \<open>rolls\<close> and the optional list
  \<open>guaranteed\<close>. The field \<open>drop\<close> is named \<open>drop_name\<close> here.
\<close>

datatype quantity_spec = Scalar real | Range int int

record LootEntry =
  drop_name :: string
  weight :: real
  quantity :: quantity_spec
  unique :: bool

record GuaranteedDrop =
  g_drop :: string
  g_quantity :: quantity_spec

record LootTableMeta =
  entries :: "LootEntry list"
  rolls :: "int \<times> int"
  guaranteed :: "GuaranteedDrop list option"

record LootResult =
  res_drop :: string
  res_quantity :: int

definition calculateQuantity :: "rng \<Rightarrow> nat \<Rightarrow> quantity_spec \<Rightarrow> real \<Rightarrow> error + int \<times> nat" where
  "calculateQuantity g k quantitySpec multiplier =
     (case quantitySpec of
        Scalar baseQuantity \<Rightarrow> Inr (\<lfloor>baseQuantity * multiplier\<rfloor>, k)
      | Range lo hi \<Rightarrow>
          (case math_random_range g k lo hi of
             Inl e \<Rightarrow> Inl e
           | Inr (baseQuantity, k') \<Rightarrow> Inr (\<lfloor>real_of_int baseQuantity * multiplier\<rfloor>, k')))"

definition totalWeight :: "LootEntry list \<Rightarrow> real" where
  "totalWeight es = foldl (\<lambda>sum entry. sum + weight entry) 0 es"

text \<open>The loop over \<open>lootTable.guaranteed\<close>: every drop is pushed, with no merge.\<close>

fun add_guaranteed ::
  "rng \<Rightarrow> nat \<Rightarrow> real \<Rightarrow> GuaranteedDrop list \<Rightarrow> LootResult list \<Rightarrow> error + LootResult list \<times> nat" where
  "add_guaranteed g k multiplier [] results = Inr (results, k)"
| "add_guaranteed g k multiplier (d # ds) results =
     (case calculateQuantity g k (g_quantity d) multiplier of
        Inl e \<Rightarrow> Inl e
      | Inr (q, k') \<Rightarrow>
          add_guaranteed g k' multiplier ds (results @ [\<lparr>res_drop = g_drop d, res_quantity = q\<rparr>]))"

text \<open>
  The inner loop of a roll walks the entries, adding up weights, and stops at the first
  entry with \<open>randomValue <= currentWeight\<close>; \<open>None\<close> when the walk ends without one.
\<close>

fun select_entry :: "real \<Rightarrow> real \<Rightarrow> LootEntry list \<Rightarrow> LootEntry option" where
  "select_entry randomValue currentWeight [] = None"
| "select_entry randomValue currentWeight (entry # es) =
     (if randomValue \<le> currentWeight + weight entry then Some entry
      else select_entry randomValue (currentWeight + weight entry) es)"

text \<open>\<open>existingResult.quantity += quantity\<close> on the first result with that drop.\<close>

fun add_quantity :: "string \<Rightarrow> int \<Rightarrow> LootResult list \<Rightarrow> LootResult list" where
  "add_quantity d q [] = []"
| "add_quantity d q (r # rs) =
     (if res_drop r = d then r\<lparr>res_quantity := res_quantity r + q\<rparr> # rs
      else r # add_quantity d q rs)"

definition merge_result :: "LootResult list \<Rightarrow> LootEntry \<Rightarrow> int \<Rightarrow> LootResult list" where
  "merge_result results entry q =
     (let existingResult = find (\<lambda>r. res_drop r = drop_name entry) results in
      if existingResult \<noteq> None \<and> \<not> unique entry then add_quantity (drop_name entry) q results
      else if existingResult = None then results @ [\<lparr>res_drop = drop_name entry, res_quantity = q\<rparr>]
      else results)"

definition roll_once ::
  "rng \<Rightarrow> nat \<Rightarrow> LootEntry list \<Rightarrow> real \<Rightarrow> LootResult list \<Rightarrow> error + LootResult list \<times> nat" where
  "roll_once g k es multiplier results =
     (case math_random g k of
        (u, k1) \<Rightarrow>
          (case select_entry (u * totalWeight es) 0 es of
             None \<Rightarrow> Inr (results, k1)
           | Some entry \<Rightarrow>
               (case calculateQuantity g k1 (quantity entry) multiplier of
                  Inl e \<Rightarrow> Inl e
                | Inr (q, k2) \<Rightarrow> Inr (merge_result results entry q, k2))))"

fun roll_loop ::
  "nat \<Rightarrow> rng \<Rightarrow> nat \<Rightarrow> LootEntry list \<Rightarrow> real \<Rightarrow> LootResult list \<Rightarrow> error + LootResult list \<times> nat" where
  "roll_loop 0 g k es multiplier results = Inr (results, k)"
| "roll_loop (Suc n) g k es multiplier results =
     (case roll_once g k es multiplier results of
        Inl e \<Rightarrow> Inl e
      | Inr (results', k') \<Rightarrow> roll_loop n g k' es multiplier results')"

text \<open>The results before the roll loop: the guaranteed drops, or nothing.\<close>

definition guaranteed_results ::
  "rng \<Rightarrow> nat \<Rightarrow> LootTableMeta \<Rightarrow> real \<Rightarrow> error + LootResult list \<times> nat" where
  "guaranteed_results g k lootTable multiplier =
     (case guaranteed lootTable of
        None \<Rightarrow> Inr ([], k)
      | Some ds \<Rightarrow> add_guaranteed g k multiplier ds [])"

definition generateLootFromTable ::
  "rng \<Rightarrow> nat \<Rightarrow> LootTableMeta \<Rightarrow> real \<Rightarrow> error + LootResult list \<times> nat" where
  "generateLootFromTable g k lootTable multiplier =
     (case math_random_range g k (fst (rolls lootTable)) (snd (rolls lootTable)) of
        Inl e \<Rightarrow> Inl e
      | Inr (rollCount, k1) \<Rightarrow>
          (case guaranteed_results g k1 lootTable multiplier of
             Inl e \<Rightarrow> Inl e
           | Inr (results, k2) \<Rightarrow>
               roll_loop (nat rollCount) g k2 (entries lootTable) multiplier results))"

section \<open>ResourceService\<close>

text \<open>
  A player is known to the services by \<open>UserId\<close> and \<open>Name\<close>. The service keeps
  one \<open>PlayerResources\<close> per \<open>UserId\<close>; the two maps of a player are mutated in place
  and shared by the copy stored back with the new \<open>lastUpdated\<close>.
\<close>

record Player =
  UserId :: int
  Name :: string

record PlayerResources =
  playerId :: int
  resources :: "string \<rightharpoonup> real"
  maxResources :: "string \<rightharpoonup> real"
  lastUpdated :: real

type_synonym ledger = "int \<rightharpoonup> PlayerResources"

text \<open>
  A Luau division never raises: by zero it gives an infinity or NaN, and every comparison
  with NaN is false. The quotient \<open>newValue / maxValue\<close> is the only place where
  \<open>onResourceChanged\<close> can meet them. The quotient is a double, and so is the
  constant \<open>0.2\<close> it is compared with: \<open>rnd\<close> is the rounding of a real number to
  a double, a parameter, so that the quotient the code computes is \<open>rnd (a / b)\<close> and
  its \<open>0.2\<close> is \<open>rnd (2 / 10)\<close>.
\<close>

datatype quotient = Finite real | PosInf | NegInf | NaN

definition luau_div :: "(real \<Rightarrow> real) \<Rightarrow> real \<Rightarrow> real \<Rightarrow> quotient" where
  "luau_div rnd a b =
     (if b \<noteq> 0 then Finite (rnd (a / b))
      else if 0 < a then PosInf
      else if a < 0 then NegInf
      else NaN)"

fun quotient_le :: "quotient \<Rightarrow> real \<Rightarrow> bool" where
  "quotient_le (Finite x) c = (x \<le> c)"
| "quotient_le PosInf c = False"
| "quotient_le NegInf c = True"
| "quotient_le NaN c = False"

text \<open>
  What a call leaves behind besides the ledger: the warning of \<open>getPlayerResource\<close>, the
  line \<open>onResourceChanged\<close> prints (value and maximum; the percentage is computed from
  them), and the calls of \<open>handleResourceDepletion\<close> and \<open>handleLowResource\<close>.
\<close>

datatype resource_effect =
  NoDataWarning int
| ResourceChanged int string real real
| ResourceDepletion int string
| LowResource int string

text \<open>
  \<open>ResourceMetaRecord\<close>, \<open>RESOURCE_KEYS\<close> and \<open>DEFAULT_RESOURCES\<close> of
  \<open>shared/definitions/Resources\<close> are parameters: \<open>metaRecord\<close>, \<open>keys\<close> and
  \<open>defaults\<close> (current and maximum of a key).
\<close>

definition getResourceMeta :: "(string \<rightharpoonup> 'm) \<Rightarrow> string \<Rightarrow> 'm option" where
  "getResourceMeta metaRecord resourceKey = metaRecord resourceKey"

definition onResourceChanged ::
  "(real \<Rightarrow> real) \<Rightarrow> (string \<rightharpoonup> 'm) \<Rightarrow> Player \<Rightarrow> string \<Rightarrow> real \<Rightarrow> real \<Rightarrow> resource_effect list" where
  "onResourceChanged rnd metaRecord player resourceKey newValue maxValue =
     ResourceChanged (UserId player) resourceKey newValue maxValue #
     (case getResourceMeta metaRecord resourceKey of
        None \<Rightarrow> []
      | Some meta \<Rightarrow>
          (if newValue \<le> 0 then [ResourceDepletion (UserId player) resourceKey] else []) @
          (if quotient_le (luau_div rnd newValue maxValue) (rnd (2 / 10))
           then [LowResource (UserId player) resourceKey] else []))"

fun initializeKeys ::
  "(string \<rightharpoonup> real \<times> real) \<Rightarrow> string list \<Rightarrow> (string \<rightharpoonup> real) \<times> (string \<rightharpoonup> real) \<Rightarrow>
   (string \<rightharpoonup> real) \<times> (string \<rightharpoonup> real)" where
  "initializeKeys defaults [] acc = acc"
| "initializeKeys defaults (resourceKey # ks) (res, mx) =
     (case defaults resourceKey of
        None \<Rightarrow> initializeKeys defaults ks (res, mx)
      | Some (current, maxv) \<Rightarrow>
          initializeKeys defaults ks (res(resourceKey \<mapsto> current), mx(resourceKey \<mapsto> maxv)))"

definition initializePlayerResources ::
  "string list \<Rightarrow> (string \<rightharpoonup> real \<times> real) \<Rightarrow> ledger \<Rightarrow> Player \<Rightarrow> real \<Rightarrow> ledger" where
  "initializePlayerResources keys defaults s player now =
     (case initializeKeys defaults keys (Map.empty, Map.empty) of
        (res, mx) \<Rightarrow>
          s(UserId player \<mapsto>
            \<lparr>playerId = UserId player, resources = res, maxResources = mx, lastUpdated = now\<rparr>))"

definition getPlayerResource :: "ledger \<Rightarrow> Player \<Rightarrow> string \<Rightarrow> real option \<times> resource_effect list" where
  "getPlayerResource s player resourceKey =
     (case s (UserId player) of
        None \<Rightarrow> (None, [NoDataWarning (UserId player)])
      | Some playerData \<Rightarrow> (resources playerData resourceKey, []))"

definition getPlayerMaxResource :: "ledger \<Rightarrow> Player \<Rightarrow> string \<Rightarrow> real option" where
  "getPlayerMaxResource s player resourceKey =
     (case s (UserId player) of
        None \<Rightarrow> None
      | Some playerData \<Rightarrow> maxResources playerData resourceKey)"

definition setPlayerResource ::
  "(real \<Rightarrow> real) \<Rightarrow> (string \<rightharpoonup> 'm) \<Rightarrow> ledger \<Rightarrow> Player \<Rightarrow> string \<Rightarrow> real \<Rightarrow> real \<Rightarrow>
   bool \<times> ledger \<times> resource_effect list" where
  "setPlayerResource rnd metaRecord s player resourceKey v now =
     (case s (UserId player) of
        None \<Rightarrow> (False, s, [])
      | Some playerData \<Rightarrow>
          (case maxResources playerData resourceKey of
             None \<Rightarrow> (False, s, [])
           | Some maxValue \<Rightarrow>
               (let clampedValue = max 0 (min v maxValue);
                    newPlayerData = playerData
                      \<lparr>resources := (resources playerData)(resourceKey \<mapsto> clampedValue),
                       lastUpdated := now\<rparr>
                in (True, s(UserId player \<mapsto> newPlayerData),
                    onResourceChanged rnd metaRecord player resourceKey clampedValue maxValue))))"

definition modifyPlayerResource ::
  "(real \<Rightarrow> real) \<Rightarrow> (string \<rightharpoonup> 'm) \<Rightarrow> ledger \<Rightarrow> Player \<Rightarrow> string \<Rightarrow> real \<Rightarrow> real \<Rightarrow>
   bool \<times> ledger \<times> resource_effect list" where
  "modifyPlayerResource rnd metaRecord s player resourceKey delta now =
     (case getPlayerResource s player resourceKey of
        (None, w) \<Rightarrow> (False, s, w)
      | (Some currentValue, w) \<Rightarrow>
          (case setPlayerResource rnd metaRecord s player resourceKey (currentValue + delta) now of
             (ok, s', evs) \<Rightarrow> (ok, s', w @ evs)))"

definition setPlayerMaxResource :: "ledger \<Rightarrow> Player \<Rightarrow> string \<Rightarrow> real \<Rightarrow> real \<Rightarrow> bool \<times> ledger" where
  "setPlayerMaxResource s player resourceKey maxValue now =
     (case s (UserId player) of
        None \<Rightarrow> (False, s)
      | Some playerData \<Rightarrow>
          (let newMax = (maxResources playerData)(resourceKey \<mapsto> maxValue);
               newRes =
                 (case resources playerData resourceKey of
                    None \<Rightarrow> resources playerData
                  | Some currentValue \<Rightarrow>
                      if maxValue < currentValue
                      then (resources playerData)(resourceKey \<mapsto> maxValue)
                      else resources playerData)
           in (True, s(UserId player \<mapsto>
                 playerData\<lparr>resources := newRes, maxResources := newMax, lastUpdated := now\<rparr>))))"

definition hasEnoughResource :: "ledger \<Rightarrow> Player \<Rightarrow> string \<Rightarrow> real \<Rightarrow> bool \<times> resource_effect list" where
  "hasEnoughResource s player resourceKey requiredAmount =
     (case getPlayerResource s player resourceKey of
        (None, w) \<Rightarrow> (False, w)
      | (Some currentAmount, w) \<Rightarrow> (requiredAmount \<le> currentAmount, w))"

definition consumeResource ::
  "(real \<Rightarrow> real) \<Rightarrow> (string \<rightharpoonup> 'm) \<Rightarrow> ledger \<Rightarrow> Player \<Rightarrow> string \<Rightarrow> real \<Rightarrow> real \<Rightarrow>
   bool \<times> ledger \<times> resource_effect list" where
  "consumeResource rnd metaRecord s player resourceKey amount now =
     (case hasEnoughResource s player resourceKey amount of
        (False, w) \<Rightarrow> (False, s, w)
      | (True, w) \<Rightarrow>
          (case modifyPlayerResource rnd metaRecord s player resourceKey (- amount) now of
             (ok, s', evs) \<Rightarrow> (ok, s', w @ evs)))"

definition restoreResource ::
  "(real \<Rightarrow> real) \<Rightarrow> (string \<rightharpoonup> 'm) \<Rightarrow> ledger \<Rightarrow> Player \<Rightarrow> string \<Rightarrow> real \<Rightarrow> bool \<times> ledger \<times> resource_effect list" where
  "restoreResource rnd metaRecord s player resourceKey now =
     (case getPlayerMaxResource s player resourceKey of
        None \<Rightarrow> (False, s, [])
      | Some maxValue \<Rightarrow> setPlayerResource rnd metaRecord s player resourceKey maxValue now)"

definition cleanupPlayer :: "ledger \<Rightarrow> Player \<Rightarrow> ledger" where
  "cleanupPlayer s player = s(UserId player := None)"

text \<open>The mutations of the ledger, as calls, and the ledger after one of them.\<close>

datatype mutation =
  SetResource Player string real real
| ModifyResource Player string real real
| ConsumeResource Player string real real
| RestoreResource Player string real
| SetMaxResource Player string real real

fun perform ::
  "(real \<Rightarrow> real) \<Rightarrow> (string \<rightharpoonup> 'm) \<Rightarrow> ledger \<Rightarrow> mutation \<Rightarrow> bool \<times> ledger \<times> resource_effect list" where
  "perform rnd metaRecord s (SetResource p k v now) = setPlayerResource rnd metaRecord s p k v now"
| "perform rnd metaRecord s (ModifyResource p k d now) = modifyPlayerResource rnd metaRecord s p k d now"
| "perform rnd metaRecord s (ConsumeResource p k a now) = consumeResource rnd metaRecord s p k a now"
| "perform rnd metaRecord s (RestoreResource p k now) = restoreResource rnd metaRecord s p k now"
| "perform rnd metaRecord s (SetMaxResource p k m now) =
     (case setPlayerMaxResource s p k m now of (ok, s') \<Rightarrow> (ok, s', []))"

definition mutate :: "(real \<Rightarrow> real) \<Rightarrow> (string \<rightharpoonup> 'm) \<Rightarrow> ledger \<Rightarrow> mutation \<Rightarrow> ledger" where
  "mutate rnd metaRecord s mu = fst (snd (perform rnd metaRecord s mu))"

fun mutation_player :: "mutation \<Rightarrow> Player" where
  "mutation_player (SetResource p k v now) = p"
| "mutation_player (ModifyResource p k d now) = p"
| "mutation_player (ConsumeResource p k a now) = p"
| "mutation_player (RestoreResource p k now) = p"
| "mutation_player (SetMaxResource p k m now) = p"

fun mutation_key :: "mutation \<Rightarrow> string" where
  "mutation_key (SetResource p k v now) = k"
| "mutation_key (ModifyResource p k d now) = k"
| "mutation_key (ConsumeResource p k a now) = k"
| "mutation_key (RestoreResource p k now) = k"
| "mutation_key (SetMaxResource p k m now) = k"

fun sets_value :: "mutation \<Rightarrow> bool" where
  "sets_value (SetMaxResource p k m now) = False"
| "sets_value other = True"

text \<open>
  The range of a stored pair, and the ledgers where every stored current value has a
  maximum and lies in its range.
\<close>

definition in_range :: "ledger \<Rightarrow> int \<Rightarrow> string \<Rightarrow> bool" where
  "in_range s uid k =
     (case s uid of
        None \<Rightarrow> True
      | Some playerData \<Rightarrow>
          (case resources playerData k of
             None \<Rightarrow> True
           | Some current \<Rightarrow>
               (case maxResources playerData k of
                  None \<Rightarrow> False
                | Some maxv \<Rightarrow> 0 \<le> current \<and> current \<le> maxv)))"

definition nonneg_max :: "ledger \<Rightarrow> int \<Rightarrow> string \<Rightarrow> bool" where
  "nonneg_max s uid k =
     (case s uid of
        None \<Rightarrow> True
      | Some playerData \<Rightarrow>
          (case maxResources playerData k of None \<Rightarrow> True | Some maxv \<Rightarrow> 0 \<le> maxv))"

definition ledger_inv :: "ledger \<Rightarrow> bool" where
  "ledger_inv s = (\<forall>uid k. in_range s uid k \<and> nonneg_max s uid k)"

fun nonneg_ceiling :: "mutation \<Rightarrow> bool" where
  "nonneg_ceiling (SetMaxResource p k m now) = (0 \<le> m)"
| "nonneg_ceiling other = True"

text \<open>
  What the effects of a successful call say about the pair it left for player \<open>uid\<close>
  and key \<open>k\<close>: the line with the stored value \<open>v\<close> and maximum \<open>m\<close> is there; for a
  key with metadata the depletion handler ran exactly if \<open>v = 0\<close>, the low-resource
  handler ran exactly if the test \<open>v / m <= 0.2\<close> of the code held, and it did run if
  \<open>v\<close> divided by \<open>m\<close> is at most a fifth; for a key without metadata neither ran.
\<close>

definition handlers_run ::
  "(real \<Rightarrow> real) \<Rightarrow> bool \<Rightarrow> ledger \<Rightarrow> resource_effect list \<Rightarrow> int \<Rightarrow> string \<Rightarrow> bool" where
  "handlers_run rnd has_meta s' evs uid k =
     (\<exists>pd' v m. s' uid = Some pd' \<and> resources pd' k = Some v \<and> maxResources pd' k = Some m \<and>
        ResourceChanged uid k v m \<in> set evs \<and>
        (if has_meta
         then (ResourceDepletion uid k \<in> set evs \<longleftrightarrow> v = 0) \<and>
              (LowResource uid k \<in> set evs \<longleftrightarrow> quotient_le (luau_div rnd v m) (rnd (2 / 10))) \<and>
              (m \<noteq> 0 \<and> v / m \<le> 2 / 10 \<longrightarrow> LowResource uid k \<in> set evs)
         else ResourceDepletion uid k \<notin> set evs \<and> LowResource uid k \<notin> set evs))"

section \<open>NPCService\<close>

text \<open>
  \<open>NPCMetaMap\<close> of \<open>shared/definitions/NPC\<close> is the parameter \<open>metaMap\<close>; of a
  metadata record the service reads \<open>baseStats.maxHealth\<close> and the optional
  \<open>lootTable\<close>. The engine's model of an NPC is outside the service: whether
  \<open>createNPCModel\<close> returned one is an argument of \<open>spawnNPC\<close>. The id \<open>npc_<n>\<close> is
  its number \<open>n\<close>.
\<close>

record Vector3 =
  X :: real
  Y :: real
  Z :: real

record NPCMeta =
  baseMaxHealth :: real
  lootTable :: "string option"

record SpawnedNPC =
  npc_id :: nat
  npcKey :: string
  spawned :: real
  health :: real
  maxHealth :: real
  isAlive :: bool
  position :: Vector3

record NPCService =
  spawnedNPCs :: "nat \<rightharpoonup> SpawnedNPC"
  nextNPCId :: nat




text \<open>
  \<open>handleNPCDeath\<close> clears the flag, prints the loot line when the metadata names a loot
  table (\<open>meta?.lootTable\<close> is falsy for an absent key and for the empty string), and
  then waits five seconds before it despawns the NPC: \<open>damageNPC\<close> is
  suspended there, and other calls run meanwhile. A call of \<open>damageNPC\<close> so either
  returns at once or is left waiting in the death handling of an NPC.
\<close>

datatype npc_effect = LootLine string string

datatype damage_outcome = Returned bool | WaitingToDespawn nat

definition handleNPCDeath ::
  "(string \<rightharpoonup> NPCMeta) \<Rightarrow> NPCService \<Rightarrow> nat \<Rightarrow> SpawnedNPC \<Rightarrow> NPCService \<times> npc_effect list" where
  "handleNPCDeath metaMap s npcId npc =
     (s\<lparr>spawnedNPCs := (spawnedNPCs s)(npcId \<mapsto> npc\<lparr>isAlive := False\<rparr>)\<rparr>,
      (case metaMap (npcKey npc) of
         None \<Rightarrow> []
       | Some meta \<Rightarrow>
           (case lootTable meta of
              None \<Rightarrow> []
            | Some tbl \<Rightarrow> if tbl = [] then [] else [LootLine (npcKey npc) tbl])))"

definition damageNPC ::
  "(string \<rightharpoonup> NPCMeta) \<Rightarrow> NPCService \<Rightarrow> nat \<Rightarrow> real \<Rightarrow>
   damage_outcome \<times> NPCService \<times> npc_effect list" where
  "damageNPC metaMap s npcId damage =
     (case spawnedNPCs s npcId of
        None \<Rightarrow> (Returned False, s, [])
      | Some npc \<Rightarrow>
          if \<not> isAlive npc then (Returned False, s, [])
          else
            (let npc' = npc\<lparr>health := max 0 (health npc - damage)\<rparr>;
                 s' = s\<lparr>spawnedNPCs := (spawnedNPCs s)(npcId \<mapsto> npc')\<rparr>
             in if health npc' \<le> 0
                then (case handleNPCDeath metaMap s' npcId npc' of
                        (s'', evs) \<Rightarrow> (WaitingToDespawn (npc_id npc'), s'', evs))
                else (Returned True, s', [])))"









section \<open>EventService\<close>

text \<open>
  A listener is a closure: it has an identity (\<open>indexOf\<close> compares references), and a
  call of it changes the world outside the service, may call \<open>on\<close> and \<open>off\<close> of the
  service, and may throw, leaving what it did. \<open>fire\<close> catches what a listener throws
  and warns.

  \<open>for (const listener of listeners)\<close> reads the array of the event element by element
  while the listeners run, and \<open>on\<close> and \<open>off\<close> change that same array in place: what a
  running listener adds or removes changes what the loop reads next. A listener that
  keeps adding listeners keeps the loop running for ever: the loop of the model takes
  fuel, the number of calls it may make, and is \<open>None\<close> when that does not suffice.
\<close>

record 'd GameEvent =
  ev_name :: string
  ev_timestamp :: real
  ev_data :: 'd

datatype ('d, 'w) EventCallback =
  EventCallback (cb_ref: nat) (cb_run: "'d \<Rightarrow> 'w \<Rightarrow> 'w \<times> ('d, 'w) bus_call list \<times> string option")
and ('d, 'w) bus_call =
  CallOn string "('d, 'w) EventCallback"
| CallOff string nat

record ('d, 'w) EventService =
  eventListeners :: "string \<rightharpoonup> ('d, 'w) EventCallback list"
  eventHistory :: "'d GameEvent list"



fun remove_first :: "nat \<Rightarrow> ('d, 'w) EventCallback list \<Rightarrow> ('d, 'w) EventCallback list" where
  "remove_first r [] = []"
| "remove_first r (l # ls) = (if cb_ref l = r then ls else l # remove_first r ls)"

text \<open>\<open>off\<close> of the callback with the reference \<open>r\<close>.\<close>

definition off_ref :: "('d, 'w) EventService \<Rightarrow> string \<Rightarrow> nat \<Rightarrow> ('d, 'w) EventService" where
  "off_ref s eventName r =
     (case eventListeners s eventName of
        None \<Rightarrow> s
      | Some listeners \<Rightarrow>
          s\<lparr>eventListeners := (eventListeners s)(eventName \<mapsto> remove_first r listeners)\<rparr>)"

definition off_event ::
  "('d, 'w) EventService \<Rightarrow> string \<Rightarrow> ('d, 'w) EventCallback \<Rightarrow> ('d, 'w) EventService" where
  "off_event s eventName callback = off_ref s eventName (cb_ref callback)"








section \<open>PlayerDataService\<close>

text \<open>
  The data store is the engine's; the service reads and writes one value under the key
  \<open>Player_<UserId>\<close>, here the \<open>UserId\<close>. \<open>GetAsync\<close> and \<open>SetAsync\<close> may throw:
  whether a call does is an argument. The values of \<open>settings\<close> are opaque.
\<close>

record PlayerProfile =
  profile_playerId :: int
  playerName :: string
  level :: real
  experience :: real
  currency :: "string \<rightharpoonup> real"
  inventory :: "(string \<times> real) list"
  settings :: "string \<rightharpoonup> string"
  lastLogin :: real
  totalPlayTime :: real

text \<open>
  \<open>GetAsync\<close> returns two results, the stored value and the key's information. In
  \<open>const [savedData] = await this.dataStore.GetAsync(..)\<close> the operand of \<open>await\<close> is not
  where roblox-ts takes the results apart: the compiled code is
  \<open>local savedData = TS.await({ GetAsync(..) })\<close>, and \<open>savedData\<close> is the table that
  holds the results, not the first of them. The tables the service handles as profiles are
  so of two kinds: a profile with its fields, and a table holding the results of
  \<open>GetAsync\<close> (the stored value, if any) with the field \<open>lastLogin\<close>, if assigned, and
  no other field of a profile.
\<close>

datatype profile_object =
  ProfileTable PlayerProfile
| ResultsTable "profile_object option" "real option"

text \<open>A table is truthy. Reading a field a table does not have gives nothing.\<close>

fun truthy :: "profile_object \<Rightarrow> bool" where
  "truthy (ProfileTable profile) = True"
| "truthy (ResultsTable stored login) = True"

fun level_of :: "profile_object \<Rightarrow> real option" where
  "level_of (ProfileTable profile) = Some (level profile)"
| "level_of (ResultsTable stored login) = None"

fun experience_of :: "profile_object \<Rightarrow> real option" where
  "experience_of (ProfileTable profile) = Some (experience profile)"
| "experience_of (ResultsTable stored login) = None"

fun totalPlayTime_of :: "profile_object \<Rightarrow> real option" where
  "totalPlayTime_of (ProfileTable profile) = Some (totalPlayTime profile)"
| "totalPlayTime_of (ResultsTable stored login) = None"

fun set_lastLogin :: "profile_object \<Rightarrow> real \<Rightarrow> profile_object" where
  "set_lastLogin (ProfileTable profile) now = ProfileTable (profile\<lparr>lastLogin := now\<rparr>)"
| "set_lastLogin (ResultsTable stored login) now = ResultsTable stored (Some now)"

record PlayerDataService =
  dataStore :: "int \<rightharpoonup> profile_object"
  playerProfiles :: "int \<rightharpoonup> profile_object"
  sessionStartTimes :: "int \<rightharpoonup> real"

definition createDefaultProfile :: "Player \<Rightarrow> real \<Rightarrow> PlayerProfile" where
  "createDefaultProfile player now =
     \<lparr>profile_playerId = UserId player, playerName = Name player, level = 1, experience = 0,
      currency = [''gold'' \<mapsto> 100, ''gems'' \<mapsto> 10], inventory = [], settings = Map.empty,
      lastLogin = now, totalPlayTime = 0\<rparr>"

text \<open>
  \<open>loadPlayerData\<close> reads the clock twice: for \<open>lastLogin\<close> and for the session start.
\<close>

definition loadPlayerData ::
  "PlayerDataService \<Rightarrow> Player \<Rightarrow> bool \<Rightarrow> real \<Rightarrow> real \<Rightarrow> profile_object option \<times> PlayerDataService" where
  "loadPlayerData s player getThrows now1 now2 =
     (if getThrows then (None, s)
      else
        (let savedData = ResultsTable (dataStore s (UserId player)) None;
             profile =
               (if truthy savedData then set_lastLogin savedData now1
                else ProfileTable (createDefaultProfile player now1))
         in (Some profile,
             s\<lparr>playerProfiles := (playerProfiles s)(UserId player \<mapsto> profile),
               sessionStartTimes := (sessionStartTimes s)(UserId player \<mapsto> now2)\<rparr>)))"

text \<open>
  \<open>if (profile && sessionStart)\<close>: a session start of 0 is falsy, as an absent one.
  \<open>profile.totalPlayTime += sessionTime\<close> reads the field first: on a table without it the
  addition raises, outside any \<open>try\<close>, and \<open>savePlayerData\<close> ends there.
  \<open>updatePlayTime\<close> mutates the cached table, the one \<open>savePlayerData\<close> then writes.
\<close>

datatype lua_fault = ArithmeticOnNil

definition updatePlayTime ::
  "PlayerDataService \<Rightarrow> Player \<Rightarrow> real \<Rightarrow> real \<Rightarrow> lua_fault + PlayerDataService" where
  "updatePlayTime s player now1 now2 =
     (case playerProfiles s (UserId player) of
        None \<Rightarrow> Inr s
      | Some profile \<Rightarrow>
          (case sessionStartTimes s (UserId player) of
             None \<Rightarrow> Inr s
           | Some sessionStart \<Rightarrow>
               if sessionStart = 0 then Inr s
               else
                 (case profile of
                    ResultsTable stored login \<Rightarrow> Inl ArithmeticOnNil
                  | ProfileTable p \<Rightarrow>
                      Inr (s\<lparr>playerProfiles := (playerProfiles s)(UserId player \<mapsto>
                               ProfileTable (p\<lparr>totalPlayTime := totalPlayTime p + (now1 - sessionStart)\<rparr>)),
                             sessionStartTimes := (sessionStartTimes s)(UserId player \<mapsto> now2)\<rparr>))))"

definition savePlayerData ::
  "PlayerDataService \<Rightarrow> Player \<Rightarrow> bool \<Rightarrow> real \<Rightarrow> real \<Rightarrow> lua_fault + bool \<times> PlayerDataService" where
  "savePlayerData s player setThrows now1 now2 =
     (case playerProfiles s (UserId player) of
        None \<Rightarrow> Inr (False, s)
      | Some profile0 \<Rightarrow>
          (case updatePlayTime s player now1 now2 of
             Inl fault \<Rightarrow> Inl fault
           | Inr s1 \<Rightarrow>
               if setThrows then Inr (False, s1)
               else
                 (let profile = (case playerProfiles s1 (UserId player) of
                                   None \<Rightarrow> profile0 | Some mutated \<Rightarrow> mutated)
                  in Inr (True, s1\<lparr>dataStore := (dataStore s1)(UserId player \<mapsto> profile)\<rparr>))))"

definition getPlayerProfile :: "PlayerDataService \<Rightarrow> Player \<Rightarrow> profile_object option" where
  "getPlayerProfile s player = playerProfiles s (UserId player)"

section \<open>LootService: the active drops\<close>

text \<open>
  The id \<open>loot_<n>\<close> is its number \<open>n\<close>. The parts the service creates in the
  workspace for a drop, and their animation connections, are outside the store.
\<close>

record LootDrop =
  loot_id :: nat
  itemId :: string
  loot_quantity :: int
  loot_position :: Vector3
  timestamp :: real
  expiresAt :: real

record LootService =
  activeLootDrops :: "nat \<rightharpoonup> LootDrop"
  nextLootId :: nat

definition LOOT_EXPIRE_TIME :: real where
  "LOOT_EXPIRE_TIME = 60"

definition newLootService :: LootService where
  "newLootService = \<lparr>activeLootDrops = Map.empty, nextLootId = 1\<rparr>"

definition createLootDrop ::
  "LootService \<Rightarrow> string \<Rightarrow> int \<Rightarrow> Vector3 \<Rightarrow> real \<Rightarrow> LootDrop \<times> LootService" where
  "createLootDrop s item q pos now =
     (let lootDrop =
            \<lparr>loot_id = nextLootId s, itemId = item, loot_quantity = q, loot_position = pos,
             timestamp = now, expiresAt = now + LOOT_EXPIRE_TIME\<rparr>
      in (lootDrop,
          s\<lparr>activeLootDrops := (activeLootDrops s)(nextLootId s \<mapsto> lootDrop),
            nextLootId := Suc (nextLootId s)\<rparr>))"

definition collectLoot :: "LootService \<Rightarrow> nat \<Rightarrow> LootDrop option \<times> LootService" where
  "collectLoot s lootId =
     (case activeLootDrops s lootId of
        None \<Rightarrow> (None, s)
      | Some loot \<Rightarrow> (Some loot, s\<lparr>activeLootDrops := (activeLootDrops s)(lootId := None)\<rparr>))"

text \<open>
  \<open>cleanupExpiredLoot\<close> lists the ids with \<open>now >= loot.expiresAt\<close> and deletes each: the
  drops left are those it did not list.
\<close>

definition cleanupExpiredLoot :: "LootService \<Rightarrow> real \<Rightarrow> LootService" where
  "cleanupExpiredLoot s now =
     s\<lparr>activeLootDrops :=
         (\<lambda>lootId. case activeLootDrops s lootId of
                     None \<Rightarrow> None
                   | Some loot \<Rightarrow> if expiresAt loot \<le> now then None else Some loot)\<rparr>"

datatype loot_action =
  CreateLoot string int Vector3 real
| CollectLoot nat
| SweepLoot real

fun loot_step :: "LootService \<Rightarrow> loot_action \<Rightarrow> LootService" where
  "loot_step s (CreateLoot item q pos now) = snd (createLootDrop s item q pos now)"
| "loot_step s (CollectLoot lootId) = snd (collectLoot s lootId)"
| "loot_step s (SweepLoot now) = cleanupExpiredLoot s now"

definition loot_run :: "LootService \<Rightarrow> loot_action list \<Rightarrow> LootService" where
  "loot_run s acts = foldl loot_step s acts"

text \<open>An action that leaves the drop \<open>lootId\<close>, due at \<open>due\<close>, in the store.\<close>

fun keeps_loot :: "nat \<Rightarrow> real \<Rightarrow> loot_action \<Rightarrow> bool" where
  "keeps_loot lootId due (CreateLoot item q pos now) = True"
| "keeps_loot lootId due (CollectLoot c) = (c \<noteq> lootId)"
| "keeps_loot lootId due (SweepLoot now) = (now < due)"

section \<open>MessageService\<close>

text \<open>
  \<open>generateUniqueId\<close> of \<open>shared/helpers\<close> and \<open>MessageMetaRecord\<close> of
  \<open>shared/definitions/Message\<close> are not part of the service: the id a call of
  \<open>generateUniqueId\<close> returns is the argument \<open>newId\<close>, and the text colour of a
  severity the parameter \<open>metaColor\<close>. A send reads the clock twice: in
  \<open>createMessage\<close> and for \<open>expiresAt\<close>. \<open>deliverMessage\<close> only prints.
\<close>

record MessageShape =
  msg_id :: string
  msg_timestamp :: real
  title :: string
  content :: string
  severity :: string
  textColor :: "nat \<times> nat \<times> nat"

record QueuedMessage =
  message :: MessageShape
  recipientId :: "int option"
  msg_expiresAt :: real

record MessageService =
  messageQueue :: "string \<rightharpoonup> QueuedMessage"
  playerMessageHistory :: "int \<rightharpoonup> MessageShape list"

definition MAX_HISTORY_PER_PLAYER :: nat where
  "MAX_HISTORY_PER_PLAYER = 50"

definition MESSAGE_EXPIRE_TIME :: real where
  "MESSAGE_EXPIRE_TIME = 300"

definition createMessage ::
  "(string \<rightharpoonup> nat \<times> nat \<times> nat) \<Rightarrow> string \<Rightarrow> real \<Rightarrow> string \<Rightarrow> string \<Rightarrow> string \<Rightarrow> MessageShape" where
  "createMessage metaColor newId now c t sev =
     \<lparr>msg_id = newId, msg_timestamp = now, title = t, content = c, severity = sev,
      textColor = (case metaColor sev of None \<Rightarrow> (255, 255, 255) | Some col \<Rightarrow> col)\<rparr>"

text \<open>\<open>history.shift()\<close>, \<open>n\<close> times.\<close>

fun shift_times :: "nat \<Rightarrow> 'a list \<Rightarrow> 'a list" where
  "shift_times 0 history = history"
| "shift_times (Suc n) history = shift_times n (tl history)"

definition addToPlayerHistory :: "MessageService \<Rightarrow> int \<Rightarrow> MessageShape \<Rightarrow> MessageService" where
  "addToPlayerHistory s pid m =
     (let history = (case playerMessageHistory s pid of None \<Rightarrow> [] | Some h \<Rightarrow> h) @ [m];
          trimmed =
            (if MAX_HISTORY_PER_PLAYER < length history
             then shift_times (length history - MAX_HISTORY_PER_PLAYER) history
             else history)
      in s\<lparr>playerMessageHistory := (playerMessageHistory s)(pid \<mapsto> trimmed)\<rparr>)"

definition sendMessageToPlayer ::
  "(string \<rightharpoonup> nat \<times> nat \<times> nat) \<Rightarrow> MessageService \<Rightarrow> Player \<Rightarrow> string \<Rightarrow> real \<Rightarrow> real \<Rightarrow>
   string \<Rightarrow> string \<Rightarrow> string \<Rightarrow> string \<times> MessageService" where
  "sendMessageToPlayer metaColor s player newId now1 now2 c t sev =
     (let m = createMessage metaColor newId now1 c t sev;
          queuedMessage =
            \<lparr>message = m, recipientId = Some (UserId player),
             msg_expiresAt = now2 + MESSAGE_EXPIRE_TIME\<rparr>;
          s1 = s\<lparr>messageQueue := (messageQueue s)(msg_id m \<mapsto> queuedMessage)\<rparr>
      in (msg_id m, addToPlayerHistory s1 (UserId player) m))"

text \<open>\<open>Players.GetPlayers()\<close> is the argument \<open>online\<close>.\<close>

definition broadcastMessage ::
  "(string \<rightharpoonup> nat \<times> nat \<times> nat) \<Rightarrow> MessageService \<Rightarrow> Player list \<Rightarrow> string \<Rightarrow> real \<Rightarrow> real \<Rightarrow>
   string \<Rightarrow> string \<Rightarrow> string \<Rightarrow> string \<times> MessageService" where
  "broadcastMessage metaColor s online newId now1 now2 c t sev =
     (let m = createMessage metaColor newId now1 c t sev;
          queuedMessage =
            \<lparr>message = m, recipientId = None, msg_expiresAt = now2 + MESSAGE_EXPIRE_TIME\<rparr>;
          s1 = s\<lparr>messageQueue := (messageQueue s)(msg_id m \<mapsto> queuedMessage)\<rparr>
      in (msg_id m, foldl (\<lambda>st player. addToPlayerHistory st (UserId player) m) s1 online))"

definition getMessage :: "MessageService \<Rightarrow> string \<Rightarrow> QueuedMessage option" where
  "getMessage s messageId = messageQueue s messageId"

definition cancelMessage :: "MessageService \<Rightarrow> string \<Rightarrow> bool \<times> MessageService" where
  "cancelMessage s messageId =
     (messageQueue s messageId \<noteq> None, s\<lparr>messageQueue := (messageQueue s)(messageId := None)\<rparr>)"

definition clearPlayerMessageHistory :: "MessageService \<Rightarrow> Player \<Rightarrow> MessageService" where
  "clearPlayerMessageHistory s player =
     s\<lparr>playerMessageHistory := (playerMessageHistory s)(UserId player := None)\<rparr>"

definition cleanupPlayerMessages :: "MessageService \<Rightarrow> Player \<Rightarrow> MessageService" where
  "cleanupPlayerMessages s player =
     s\<lparr>playerMessageHistory := (playerMessageHistory s)(UserId player := None),
       messageQueue :=
         (\<lambda>messageId. case messageQueue s messageId of
                        None \<Rightarrow> None
                      | Some q \<Rightarrow> if recipientId q = Some (UserId player) then None else Some q)\<rparr>"

definition cleanupExpiredMessages :: "MessageService \<Rightarrow> real \<Rightarrow> MessageService" where
  "cleanupExpiredMessages s now =
     s\<lparr>messageQueue :=
         (\<lambda>messageId. case messageQueue s messageId of
                        None \<Rightarrow> None
                      | Some q \<Rightarrow> if msg_expiresAt q \<le> now then None else Some q)\<rparr>"

datatype message_action =
  SendTo Player string real real string string string
| Broadcast "Player list" string real real string string string
| Cancel string
| ClearHistory Player
| CleanupPlayer Player
| SweepMessages real

fun message_step :: "(string \<rightharpoonup> nat \<times> nat \<times> nat) \<Rightarrow> MessageService \<Rightarrow> message_action \<Rightarrow> MessageService" where
  "message_step metaColor s (SendTo player newId now1 now2 c t sev) =
     snd (sendMessageToPlayer metaColor s player newId now1 now2 c t sev)"
| "message_step metaColor s (Broadcast online newId now1 now2 c t sev) =
     snd (broadcastMessage metaColor s online newId now1 now2 c t sev)"
| "message_step metaColor s (Cancel messageId) = snd (cancelMessage s messageId)"
| "message_step metaColor s (ClearHistory player) = clearPlayerMessageHistory s player"
| "message_step metaColor s (CleanupPlayer player) = cleanupPlayerMessages s player"
| "message_step metaColor s (SweepMessages now) = cleanupExpiredMessages s now"

definition message_run ::
  "(string \<rightharpoonup> nat \<times> nat \<times> nat) \<Rightarrow> MessageService \<Rightarrow> message_action list \<Rightarrow> MessageService" where
  "message_run metaColor s acts = foldl (message_step metaColor) s acts"

text \<open>
  An action that leaves the message \<open>messageId\<close> of recipient \<open>rcp\<close>, due at \<open>due\<close>, in
  the queue: no cancel of it, no cleanup of its recipient, no sweep at or after \<open>due\<close>,
  and no later message under its id.
\<close>

fun keeps_message :: "string \<Rightarrow> int option \<Rightarrow> real \<Rightarrow> message_action \<Rightarrow> bool" where
  "keeps_message messageId rcp due (SendTo player newId now1 now2 c t sev) = (newId \<noteq> messageId)"
| "keeps_message messageId rcp due (Broadcast online newId now1 now2 c t sev) = (newId \<noteq> messageId)"
| "keeps_message messageId rcp due (Cancel c) = (c \<noteq> messageId)"
| "keeps_message messageId rcp due (ClearHistory player) = True"
| "keeps_message messageId rcp due (CleanupPlayer player) = (rcp \<noteq> Some (UserId player))"
| "keeps_message messageId rcp due (SweepMessages now) = (now < due)"





section \<open>Example inputs\<close>

text \<open>Concrete tables, generators and service states, used to run the definitions.\<close>

definition rng0 :: rng where
  "rng0 = \<lparr>next_unit = (\<lambda>k. 0), next_int = (\<lambda>k m n. m)\<rparr>"

definition tbl0 :: LootTableMeta where
  "tbl0 =
     \<lparr>entries = [\<lparr>drop_name = ''gold'', weight = 0, quantity = Scalar 1, unique = False\<rparr>],
      rolls = (1, 1), guaranteed = None\<rparr>"

definition gem_entry :: LootEntry where
  "gem_entry = \<lparr>drop_name = ''gem'', weight = 1, quantity = Scalar 2, unique = False\<rparr>"

definition relic_entry :: LootEntry where
  "relic_entry = \<lparr>drop_name = ''relic'', weight = 1, quantity = Scalar 2, unique = True\<rparr>"

definition alice :: Player where
  "alice = \<lparr>UserId = 1, Name = ''alice''\<rparr>"

definition ledger0 :: ledger where
  "ledger0 =
     [1 \<mapsto> \<lparr>playerId = 1, resources = [''Health'' \<mapsto> 100], maxResources = [''Health'' \<mapsto> 100],
            lastUpdated = 0\<rparr>]"

definition meta0 :: "string \<rightharpoonup> unit" where
  "meta0 = [''Health'' \<mapsto> ()]"

definition ledger1 :: ledger where
  "ledger1 =
     [1 \<mapsto> \<lparr>playerId = 1, resources = [''Health'' \<mapsto> 10], maxResources = [''Health'' \<mapsto> 100],
            lastUpdated = 5\<rparr>]"

definition no_meta :: "string \<rightharpoonup> unit" where
  "no_meta = Map.empty"

definition ledger_spent :: ledger where
  "ledger_spent =
     [1 \<mapsto> \<lparr>playerId = 1, resources = [''Health'' \<mapsto> 0], maxResources = [''Health'' \<mapsto> 100],
            lastUpdated = 5\<rparr>]"

definition origin :: Vector3 where
  "origin = \<lparr>X = 0, Y = 0, Z = 0\<rparr>"

definition metaMap0 :: "string \<rightharpoonup> NPCMeta" where
  "metaMap0 = [''ZOMBIE'' \<mapsto> \<lparr>baseMaxHealth = 100, lootTable = Some ''ZOMBIE_COMMON''\<rparr>]"

definition dead_zombie :: SpawnedNPC where
  "dead_zombie =
     \<lparr>npc_id = 1, npcKey = ''ZOMBIE'', spawned = 0, health = 0, maxHealth = 100,
      isAlive = False, position = origin\<rparr>"

definition graveyard :: NPCService where
  "graveyard = \<lparr>spawnedNPCs = [1 \<mapsto> dead_zombie], nextNPCId = 2\<rparr>"






definition bob_profile :: PlayerProfile where
  "bob_profile =
     \<lparr>profile_playerId = 2, playerName = ''bob'', level = 7, experience = 350,
      currency = [''gold'' \<mapsto> 40], inventory = [(''sword'', 1)], settings = Map.empty,
      lastLogin = 1, totalPlayTime = 20\<rparr>"

definition bob :: Player where
  "bob = \<lparr>UserId = 2, Name = ''bob''\<rparr>"

definition empty_store :: PlayerDataService where
  "empty_store = \<lparr>dataStore = Map.empty, playerProfiles = Map.empty, sessionStartTimes = Map.empty\<rparr>"

definition bob_store :: PlayerDataService where
  "bob_store =
     \<lparr>dataStore = [2 \<mapsto> ProfileTable bob_profile], playerProfiles = Map.empty,
      sessionStartTimes = Map.empty\<rparr>"



definition gold_drop :: LootDrop where
  "gold_drop =
     \<lparr>loot_id = 1, itemId = ''gold'', loot_quantity = 3, loot_position = origin,
      timestamp = 100, expiresAt = 160\<rparr>"

definition loot1 :: LootService where
  "loot1 = \<lparr>activeLootDrops = [1 \<mapsto> gold_drop], nextLootId = 2\<rparr>"

definition loot_acts0 :: "loot_action list" where
  "loot_acts0 = [SweepLoot 110, CreateLoot ''gem'' 1 origin 120, CollectLoot 2, SweepLoot 159]"

definition empty_box :: MessageService where
  "empty_box = \<lparr>messageQueue = Map.empty, playerMessageHistory = Map.empty\<rparr>"

definition hello :: MessageShape where
  "hello =
     \<lparr>msg_id = ''m1'', msg_timestamp = 100, title = ''Hello'', content = ''hi'', severity = ''info'',
      textColor = (255, 255, 255)\<rparr>"

definition hello_queued :: QueuedMessage where
  "hello_queued = \<lparr>message = hello, recipientId = Some 1, msg_expiresAt = 400\<rparr>"

definition box1 :: MessageService where
  "box1 = \<lparr>messageQueue = [''m1'' \<mapsto> hello_queued], playerMessageHistory = [1 \<mapsto> [hello]]\<rparr>"

definition message_acts0 :: "message_action list" where
  "message_acts0 = [SweepMessages 130, Cancel ''m0'', SweepMessages 399]"

section \<open>Properties of generateLootFromTable\<close>

lemma foldl_zero_weights:
  "\<forall>e\<in>set es. weight e = 0 \<Longrightarrow> foldl (\<lambda>sum entry. sum + weight entry) a es = a"
  by (induction es arbitrary: a) auto

lemma totalWeight_zero: "\<forall>e\<in>set es. weight e = 0 \<Longrightarrow> totalWeight es = 0"
  by (simp add: totalWeight_def foldl_zero_weights)

lemma select_entry_zero:
  "\<forall>e\<in>set es. weight e = 0 \<Longrightarrow>
   select_entry (u * totalWeight es) 0 es = (case es of [] \<Rightarrow> None | e # _ \<Rightarrow> Some e)"
  by (cases es) (simp_all add: totalWeight_zero)

lemma names_add_quantity: "map res_drop (add_quantity d q rs) = map res_drop rs"
  by (induction rs) auto

lemma find_None_names: "(find (\<lambda>r. res_drop r = d) rs = None) = (d \<notin> set (map res_drop rs))"
  by (induction rs) auto

lemma names_merge_result:
  "map res_drop (merge_result rs e q) =
     (if drop_name e \<in> set (map res_drop rs) then map res_drop rs
      else map res_drop rs @ [drop_name e])"
proof (cases "find (\<lambda>r. res_drop r = drop_name e) rs = None")
  case True
  then have "drop_name e \<notin> set (map res_drop rs)"
    using find_None_names[of "drop_name e" rs] by simp
  with True show ?thesis by (simp add: merge_result_def)
next
  case False
  then have "drop_name e \<in> set (map res_drop rs)"
    using find_None_names[of "drop_name e" rs] by simp
  with False show ?thesis by (auto simp: merge_result_def names_add_quantity)
qed

lemma roll_once_zero:
  assumes "\<forall>e\<in>set es. weight e = 0"
  shows "roll_once g k es mult rs =
     (case es of [] \<Rightarrow> Inr (rs, Suc k)
      | e # _ \<Rightarrow> (case calculateQuantity g (Suc k) (quantity e) mult of
                     Inl err \<Rightarrow> Inl err
                   | Inr (q, k2) \<Rightarrow> Inr (merge_result rs e q, k2)))"
  using assms by (simp add: roll_once_def math_random_def select_entry_zero split: list.splits)

lemma roll_loop_zero_names:
  assumes "\<forall>e\<in>set es. weight e = 0" and "roll_loop n g k es mult rs = Inr (rs', k')"
    and "map res_drop rs = ns \<or> map res_drop rs = ns @ [drop_name (hd es)]"
  shows "map res_drop rs' = ns \<or> map res_drop rs' = ns @ [drop_name (hd es)]"
  using assms
proof (induction n arbitrary: k rs)
  case 0
  then show ?case by simp
next
  case (Suc n)
  show ?case
  proof (cases es)
    case Nil
    with Suc show ?thesis by (simp add: roll_once_zero)
  next
    case (Cons e es')
    from Suc.prems(2) obtain q k2 where
      q: "calculateQuantity g (Suc k) (quantity e) mult = Inr (q, k2)" and
      r: "roll_loop n g k2 es mult (merge_result rs e q) = Inr (rs', k')"
      using Suc.prems(1) Cons by (auto simp: roll_once_zero split: sum.splits)
    have "map res_drop (merge_result rs e q) = ns \<or>
          map res_drop (merge_result rs e q) = ns @ [drop_name (hd es)]"
    proof (cases "drop_name e \<in> set (map res_drop rs)")
      case True
      with Suc.prems(3) Cons show ?thesis by (simp add: names_merge_result)
    next
      case False
      have "map res_drop rs \<noteq> ns @ [drop_name e]"
      proof
        assume "map res_drop rs = ns @ [drop_name e]"
        then have "drop_name e \<in> set (map res_drop rs)" by (metis in_set_conv_decomp)
        with False show False by blast
      qed
      with Suc.prems(3) have "map res_drop rs = ns" using Cons by auto
      with False Cons show ?thesis by (simp add: names_merge_result)
    qed
    from Suc.IH[OF Suc.prems(1) r this] show ?thesis .
  qed
qed

lemma roll_loop_empty: "roll_loop n g k [] mult rs = Inr (rs, k + n)"
  by (induction n arbitrary: k) (simp_all add: roll_once_def math_random_def)

lemma generate_rng0_tbl0:
  "generateLootFromTable rng0 0 tbl0 1 = Inr ([\<lparr>res_drop = ''gold'', res_quantity = 1\<rparr>], 2)"
  by (simp add: generateLootFromTable_def rng0_def tbl0_def math_random_range_def
      guaranteed_results_def roll_once_def math_random_def totalWeight_def calculateQuantity_def
      merge_result_def numeral_2_eq_2)

text \<open>
  C1, as the spec states it, fails: in the table \<open>tbl0\<close> the only entry has weight 0 and
  there is no guaranteed drop, so the guaranteed-only result is empty; yet the one roll
  selects the entry, since \<open>randomValue = 0\<close> and \<open>0 <= 0\<close>.
\<close>

theorem zero_weight_counterexample:
  "map weight (entries tbl0) = [0] \<and>
   guaranteed_results rng0 1 tbl0 1 = Inr ([], 1) \<and>
   generateLootFromTable rng0 0 tbl0 1 = Inr ([\<lparr>res_drop = ''gold'', res_quantity = 1\<rparr>], 2)"
  by (simp add: generateLootFromTable_def rng0_def tbl0_def math_random_range_def
      guaranteed_results_def roll_once_def math_random_def totalWeight_def calculateQuantity_def
      merge_result_def numeral_2_eq_2)

text \<open>
  C1, amended: when every entry has weight 0, every roll selects the first entry of the
  table, whatever the draw. So the items \<open>generateLootFromTable\<close> returns are those of the
  guaranteed drops, in their order, followed at most by the item of the first entry; the
  result is the guaranteed drops alone when the table has no entry.
\<close>

theorem zero_weight_rolls_select_first_entry:
  assumes zero: "\<forall>e\<in>set (entries t). weight e = 0"
  shows "select_entry (u * totalWeight (entries t)) 0 (entries t) =
           (case entries t of [] \<Rightarrow> None | e # es \<Rightarrow> Some e) \<and>
         (\<forall>res k'. generateLootFromTable g k t mult = Inr (res, k') \<longrightarrow>
            (\<exists>gres k1. guaranteed_results g (Suc k) t mult = Inr (gres, k1) \<and>
               (map res_drop res = map res_drop gres \<or>
                map res_drop res = map res_drop gres @ [drop_name (hd (entries t))]) \<and>
               (entries t = [] \<longrightarrow> res = gres)))"
proof (intro conjI allI impI)
  show "select_entry (u * totalWeight (entries t)) 0 (entries t) =
          (case entries t of [] \<Rightarrow> None | e # es \<Rightarrow> Some e)"
    using zero by (rule select_entry_zero)
next
  fix res k'
  assume gen: "generateLootFromTable g k t mult = Inr (res, k')"
  then obtain rollCount gres k1 where
    gr: "guaranteed_results g (Suc k) t mult = Inr (gres, k1)" and
    loop: "roll_loop (nat rollCount) g k1 (entries t) mult gres = Inr (res, k')"
    by (auto simp: generateLootFromTable_def math_random_range_def split: if_splits sum.splits)
  have names: "map res_drop res = map res_drop gres \<or>
      map res_drop res = map res_drop gres @ [drop_name (hd (entries t))]"
    using roll_loop_zero_names[OF zero loop] by simp
  have "entries t = [] \<longrightarrow> res = gres"
    using loop by (auto simp: roll_loop_empty)
  with gr names show "\<exists>gres k1. guaranteed_results g (Suc k) t mult = Inr (gres, k1) \<and>
      (map res_drop res = map res_drop gres \<or>
       map res_drop res = map res_drop gres @ [drop_name (hd (entries t))]) \<and>
      (entries t = [] \<longrightarrow> res = gres)"
    by blast
qed

theorem zero_weight_rolls_select_first_entry_witness:
  "list_all (\<lambda>e. weight e = 0) (entries tbl0) \<and>
   select_entry ((1 / 2) * totalWeight (entries tbl0)) 0 (entries tbl0) = Some (hd (entries tbl0)) \<and>
   generateLootFromTable rng0 0 tbl0 1 = Inr ([\<lparr>res_drop = ''gold'', res_quantity = 1\<rparr>], 2) \<and>
   (\<exists>gres k1. guaranteed_results rng0 1 tbl0 1 = Inr (gres, k1) \<and>
      map res_drop [\<lparr>res_drop = ''gold'', res_quantity = 1\<rparr>] = map res_drop gres @ [''gold''])"
proof -
  have z: "\<forall>e\<in>set (entries tbl0). weight e = 0" by (simp add: tbl0_def)
  have g: "generateLootFromTable rng0 0 tbl0 1 = Inr ([\<lparr>res_drop = ''gold'', res_quantity = 1\<rparr>], 2)"
    by (rule generate_rng0_tbl0)
  have gr: "guaranteed_results rng0 1 tbl0 1 = Inr ([], 1)"
    by (simp add: guaranteed_results_def tbl0_def)
  from zero_weight_rolls_select_first_entry[OF z, of "1 / 2" rng0 0 1]
  have "select_entry ((1 / 2) * totalWeight (entries tbl0)) 0 (entries tbl0) =
          (case entries tbl0 of [] \<Rightarrow> None | e # es \<Rightarrow> Some e)" by blast
  then have s: "select_entry ((1 / 2) * totalWeight (entries tbl0)) 0 (entries tbl0) = Some (hd (entries tbl0))"
    by (simp add: tbl0_def)
  show ?thesis using z s g gr by (simp add: list_all_iff)
qed

subsection \<open>The merge rule\<close>

lemma add_quantity_first_match:
  "\<forall>x\<in>set pre. res_drop x \<noteq> d \<Longrightarrow> res_drop r = d \<Longrightarrow>
   add_quantity d q (pre @ r # post) = pre @ r\<lparr>res_quantity := res_quantity r + q\<rparr> # post"
  by (induction pre) auto

lemma find_first_match:
  "\<forall>x\<in>set pre. res_drop x \<noteq> d \<Longrightarrow> res_drop r = d \<Longrightarrow>
   find (\<lambda>x. res_drop x = d) (pre @ r # post) = Some r"
  by (induction pre) auto

lemma merge_result_present:
  assumes "\<forall>x\<in>set pre. res_drop x \<noteq> drop_name e" and "res_drop r = drop_name e"
  shows "merge_result (pre @ r # post) e q =
     (if unique e then pre @ r # post else pre @ r\<lparr>res_quantity := res_quantity r + q\<rparr> # post)"
  using assms by (simp add: merge_result_def find_first_match add_quantity_first_match)

lemma filter_add_quantity_other:
  "d \<noteq> d' \<Longrightarrow> filter (\<lambda>r. res_drop r = d) (add_quantity d' q rs) = filter (\<lambda>r. res_drop r = d) rs"
  by (induction rs) auto

lemma merge_result_keeps_unique:
  assumes "drop_name e = d \<longrightarrow> unique e" and "d \<in> set (map res_drop rs)"
  shows "filter (\<lambda>r. res_drop r = d) (merge_result rs e q) = filter (\<lambda>r. res_drop r = d) rs"
proof (cases "drop_name e = d")
  case True
  with assms(1) have u: "unique e" by simp
  from True assms(2) have "drop_name e \<in> set (map res_drop rs)" by simp
  then have "find (\<lambda>r. res_drop r = drop_name e) rs \<noteq> None"
    using find_None_names[of "drop_name e" rs] by simp
  with u have "merge_result rs e q = rs" by (simp add: merge_result_def)
  then show ?thesis by simp
next
  case False
  then show ?thesis
    by (auto simp: merge_result_def Let_def filter_add_quantity_other)
qed

lemma select_entry_in_set: "select_entry rv cw es = Some e \<Longrightarrow> e \<in> set es"
  by (induction es arbitrary: cw) (auto split: if_splits)

lemma roll_once_keeps_unique:
  assumes "\<forall>e\<in>set es. drop_name e = d \<longrightarrow> unique e" and "d \<in> set (map res_drop rs)"
    and "roll_once g k es mult rs = Inr (rs', k')"
  shows "filter (\<lambda>r. res_drop r = d) rs' = filter (\<lambda>r. res_drop r = d) rs"
  using assms
  by (auto simp: roll_once_def math_random_def merge_result_keeps_unique
      split: option.splits sum.splits dest!: select_entry_in_set)

lemma roll_loop_keeps_unique:
  assumes "\<forall>e\<in>set es. drop_name e = d \<longrightarrow> unique e" and "d \<in> set (map res_drop rs)"
    and "roll_loop n g k es mult rs = Inr (rs', k')"
  shows "filter (\<lambda>r. res_drop r = d) rs' = filter (\<lambda>r. res_drop r = d) rs"
  using assms
proof (induction n arbitrary: k rs)
  case 0
  then show ?case by simp
next
  case (Suc n)
  from Suc.prems(3) obtain rs1 k1 where
    once: "roll_once g k es mult rs = Inr (rs1, k1)" and
    rest: "roll_loop n g k1 es mult rs1 = Inr (rs', k')"
    by (auto split: sum.splits)
  have f1: "filter (\<lambda>r. res_drop r = d) rs1 = filter (\<lambda>r. res_drop r = d) rs"
    using roll_once_keeps_unique[OF Suc.prems(1,2) once] .
  have "d \<in> set (map res_drop rs1)"
  proof -
    from Suc.prems(2) have "filter (\<lambda>r. res_drop r = d) rs \<noteq> []"
      by (auto simp: filter_empty_conv)
    with f1 have "filter (\<lambda>r. res_drop r = d) rs1 \<noteq> []" by simp
    then show ?thesis by (auto simp: filter_empty_conv)
  qed
  from Suc.IH[OF Suc.prems(1) this rest] f1 show ?case by simp
qed

text \<open>
  C4: when a roll selects an entry whose item is already in the result list (\<open>r\<close> is
  the first result with that item), an entry not marked unique adds the quantity it
  resolved to the quantity of \<open>r\<close>, and an entry marked unique leaves the list as it
  is. So when every entry of an item is marked unique, no number of rolls changes what
  the list holds of that item once it is there.
\<close>

theorem roll_merge_rule:
  assumes sel: "select_entry (next_unit g k * totalWeight es) 0 es = Some e"
    and qty: "calculateQuantity g (Suc k) (quantity e) mult = Inr (q, k')"
    and pre: "\<forall>x\<in>set pre. res_drop x \<noteq> drop_name e"
    and hit: "res_drop r = drop_name e"
  shows "roll_once g k es mult (pre @ r # post) =
           Inr (if unique e then pre @ r # post
                else pre @ r\<lparr>res_quantity := res_quantity r + q\<rparr> # post, k') \<and>
         (\<forall>n k0 rs' k''.
            (\<forall>x\<in>set es. drop_name x = drop_name e \<longrightarrow> unique x) \<longrightarrow>
            roll_loop n g k0 es mult (pre @ r # post) = Inr (rs', k'') \<longrightarrow>
            filter (\<lambda>x. res_drop x = drop_name e) rs' =
              filter (\<lambda>x. res_drop x = drop_name e) (pre @ r # post))"
proof (intro conjI allI impI)
  show "roll_once g k es mult (pre @ r # post) =
           Inr (if unique e then pre @ r # post
                else pre @ r\<lparr>res_quantity := res_quantity r + q\<rparr> # post, k')"
    using sel qty merge_result_present[OF pre hit, of post q]
    by (simp add: roll_once_def math_random_def)
next
  fix n k0 rs' k''
  assume u: "\<forall>x\<in>set es. drop_name x = drop_name e \<longrightarrow> unique x"
    and l: "roll_loop n g k0 es mult (pre @ r # post) = Inr (rs', k'')"
  have "drop_name e \<in> set (map res_drop (pre @ r # post))" using hit by simp
  from roll_loop_keeps_unique[OF u this l]
  show "filter (\<lambda>x. res_drop x = drop_name e) rs' =
          filter (\<lambda>x. res_drop x = drop_name e) (pre @ r # post)" .
qed

theorem roll_merge_rule_witness:
  "roll_once rng0 0 [gem_entry] 1 [\<lparr>res_drop = ''gem'', res_quantity = 5\<rparr>] =
     Inr ([\<lparr>res_drop = ''gem'', res_quantity = 7\<rparr>], 1) \<and>
   roll_once rng0 0 [relic_entry] 1 [\<lparr>res_drop = ''relic'', res_quantity = 5\<rparr>] =
     Inr ([\<lparr>res_drop = ''relic'', res_quantity = 5\<rparr>], 1) \<and>
   (\<exists>rs' k''. roll_loop 3 rng0 0 [relic_entry] 1 [\<lparr>res_drop = ''relic'', res_quantity = 5\<rparr>] = Inr (rs', k'') \<and>
      filter (\<lambda>x. res_drop x = ''relic'') rs' = [\<lparr>res_drop = ''relic'', res_quantity = 5\<rparr>])"
proof -
  have s1: "select_entry (next_unit rng0 0 * totalWeight [gem_entry]) 0 [gem_entry] = Some gem_entry"
    by (simp add: rng0_def gem_entry_def)
  have q1: "calculateQuantity rng0 (Suc 0) (quantity gem_entry) 1 = Inr (2, 1)"
    by (simp add: calculateQuantity_def gem_entry_def)
  have p: "\<forall>x\<in>set []. res_drop x \<noteq> d" for d by simp
  have h1: "res_drop \<lparr>res_drop = ''gem'', res_quantity = 5\<rparr> = drop_name gem_entry"
    by (simp add: gem_entry_def)
  have a: "roll_once rng0 0 [gem_entry] 1 [\<lparr>res_drop = ''gem'', res_quantity = 5\<rparr>] =
     Inr ([\<lparr>res_drop = ''gem'', res_quantity = 7\<rparr>], 1)"
    using roll_merge_rule[OF s1 q1 p h1, of "[]"] by (simp add: gem_entry_def)
  have s2: "select_entry (next_unit rng0 0 * totalWeight [relic_entry]) 0 [relic_entry] = Some relic_entry"
    by (simp add: rng0_def relic_entry_def)
  have q2: "calculateQuantity rng0 (Suc 0) (quantity relic_entry) 1 = Inr (2, 1)"
    by (simp add: calculateQuantity_def relic_entry_def)
  have h2: "res_drop \<lparr>res_drop = ''relic'', res_quantity = 5\<rparr> = drop_name relic_entry"
    by (simp add: relic_entry_def)
  note r = roll_merge_rule[OF s2 q2 p h2, of "[]"]
  have b: "roll_once rng0 0 [relic_entry] 1 [\<lparr>res_drop = ''relic'', res_quantity = 5\<rparr>] =
     Inr ([\<lparr>res_drop = ''relic'', res_quantity = 5\<rparr>], 1)"
    using r by (simp add: relic_entry_def)
  have u: "\<forall>x\<in>set [relic_entry]. drop_name x = drop_name relic_entry \<longrightarrow> unique x"
    by (simp add: relic_entry_def)
  obtain rs' k'' where l: "roll_loop 3 rng0 0 [relic_entry] 1 [\<lparr>res_drop = ''relic'', res_quantity = 5\<rparr>] = Inr (rs', k'')"
    by (simp add: numeral_3_eq_3 roll_once_def math_random_def rng0_def relic_entry_def
        totalWeight_def calculateQuantity_def merge_result_def)
  from l have l': "roll_loop 3 rng0 0 [relic_entry] 1 ([] @ [\<lparr>res_drop = ''relic'', res_quantity = 5\<rparr>]) = Inr (rs', k'')"
    by simp
  have "filter (\<lambda>x. res_drop x = drop_name relic_entry) rs' =
      filter (\<lambda>x. res_drop x = drop_name relic_entry) ([] @ [\<lparr>res_drop = ''relic'', res_quantity = 5\<rparr>])"
    using r[THEN conjunct2, THEN spec, THEN spec, THEN spec, THEN spec, THEN mp, THEN mp, OF u l'] .
  then have "filter (\<lambda>x. res_drop x = ''relic'') rs' = [\<lparr>res_drop = ''relic'', res_quantity = 5\<rparr>]"
    by (simp add: relic_entry_def)
  with a b l show ?thesis by blast
qed

section \<open>Properties of the ResourceService\<close>

lemma set_preserves_inv:
  assumes "ledger_inv s"
  shows "ledger_inv (fst (snd (setPlayerResource rnd metaRecord s p k v now)))"
  unfolding ledger_inv_def
proof (intro allI)
  fix uid k'
  from assms have a: "in_range s uid k'" "nonneg_max s uid k'" "nonneg_max s (UserId p) k"
    by (simp_all add: ledger_inv_def)
  then show "in_range (fst (snd (setPlayerResource rnd metaRecord s p k v now))) uid k' \<and>
        nonneg_max (fst (snd (setPlayerResource rnd metaRecord s p k v now))) uid k'"
    by (auto simp: setPlayerResource_def in_range_def nonneg_max_def Let_def split: option.splits)
qed

lemma modify_preserves_inv:
  assumes "ledger_inv s"
  shows "ledger_inv (fst (snd (modifyPlayerResource rnd metaRecord s p k d now)))"
proof (cases "getPlayerResource s p k")
  case (Pair cur w)
  show ?thesis
  proof (cases cur)
    case None
    with Pair assms show ?thesis by (simp add: modifyPlayerResource_def)
  next
    case (Some c)
    obtain ok s' evs where r: "setPlayerResource rnd metaRecord s p k (c + d) now = (ok, s', evs)"
      by (cases "setPlayerResource rnd metaRecord s p k (c + d) now") auto
    with set_preserves_inv[OF assms, of rnd metaRecord p k "c + d" now] have "ledger_inv s'" by simp
    with Pair Some r show ?thesis by (simp add: modifyPlayerResource_def)
  qed
qed

lemma consume_preserves_inv:
  assumes "ledger_inv s"
  shows "ledger_inv (fst (snd (consumeResource rnd metaRecord s p k a now)))"
proof (cases "hasEnoughResource s p k a")
  case (Pair enough w)
  obtain ok s' evs where r: "modifyPlayerResource rnd metaRecord s p k (- a) now = (ok, s', evs)"
    by (cases "modifyPlayerResource rnd metaRecord s p k (- a) now") auto
  with modify_preserves_inv[OF assms, of rnd metaRecord p k "- a" now] have "ledger_inv s'" by simp
  with Pair r assms show ?thesis
    by (cases enough) (simp_all add: consumeResource_def)
qed

lemma restore_preserves_inv:
  assumes "ledger_inv s"
  shows "ledger_inv (fst (snd (restoreResource rnd metaRecord s p k now)))"
proof (cases "getPlayerMaxResource s p k")
  case None
  with assms show ?thesis by (simp add: restoreResource_def)
next
  case (Some maxValue)
  with set_preserves_inv[OF assms, of rnd metaRecord p k maxValue now] show ?thesis
    by (simp add: restoreResource_def)
qed

lemma setMax_preserves_inv:
  assumes "ledger_inv s" and "0 \<le> m"
  shows "ledger_inv (snd (setPlayerMaxResource s p k m now))"
  unfolding ledger_inv_def
proof (intro allI)
  fix uid k'
  from assms have a: "in_range s uid k'" "nonneg_max s uid k'"
    by (simp_all add: ledger_inv_def)
  with assms(2) show "in_range (snd (setPlayerMaxResource s p k m now)) uid k' \<and>
        nonneg_max (snd (setPlayerMaxResource s p k m now)) uid k'"
    by (auto simp: setPlayerMaxResource_def in_range_def nonneg_max_def Let_def split: option.splits)
qed

lemma setMax_clamps_down:
  assumes "s (UserId p) = Some pd" and "resources pd k = Some c" and "m < c"
  shows "\<exists>pd'. snd (setPlayerMaxResource s p k m now) (UserId p) = Some pd' \<and>
           resources pd' k = Some m \<and> maxResources pd' k = Some m"
  using assms by (simp add: setPlayerMaxResource_def)

lemma mutate_SetMax:
  "mutate rnd metaRecord s (SetMaxResource p k m now) = snd (setPlayerMaxResource s p k m now)"
  by (cases "setPlayerMaxResource s p k m now") (simp add: mutate_def)

text \<open>
  C2, as the spec states it, fails for a negative ceiling: from Health 100 of 100,
  \<open>setPlayerMaxResource\<close> with \<open>-5\<close> stores the maximum \<open>-5\<close> and clamps the current
  value down to \<open>-5\<close>, below 0.
\<close>

theorem setMax_negative_counterexample:
  "in_range ledger0 1 ''Health'' \<and>
   \<not> in_range (mutate id meta0 ledger0 (SetMaxResource alice ''Health'' (- 5) 1)) 1 ''Health''"
  by (simp add: mutate_SetMax setPlayerMaxResource_def ledger0_def alice_def in_range_def)

text \<open>
  C2, amended: in a ledger where every stored current value lies between 0 and its
  maximum and every stored maximum is at least 0, that is again so after every mutation
  (set, modify, consume, restore, and setMax with a new ceiling of at least 0), for every
  player and every key; and setMax with a ceiling below the current value stores the
  ceiling as the current value too.
\<close>

theorem mutations_keep_range:
  assumes inv: "ledger_inv s" and ceil: "nonneg_ceiling mu"
  shows "ledger_inv (mutate rnd metaRecord s mu) \<and>
         (\<forall>p k m now pd c. mu = SetMaxResource p k m now \<and> s (UserId p) = Some pd \<and>
             resources pd k = Some c \<and> m < c \<longrightarrow>
             (\<exists>pd'. mutate rnd metaRecord s mu (UserId p) = Some pd' \<and>
                resources pd' k = Some m \<and> maxResources pd' k = Some m))"
proof
  show "ledger_inv (mutate rnd metaRecord s mu)"
  proof (cases mu)
    case (SetResource p k v now)
    with set_preserves_inv[OF inv] show ?thesis by (simp add: mutate_def)
  next
    case (ModifyResource p k d now)
    with modify_preserves_inv[OF inv] show ?thesis by (simp add: mutate_def)
  next
    case (ConsumeResource p k a now)
    with consume_preserves_inv[OF inv] show ?thesis by (simp add: mutate_def)
  next
    case (RestoreResource p k now)
    with restore_preserves_inv[OF inv] show ?thesis by (simp add: mutate_def)
  next
    case (SetMaxResource p k m now)
    with ceil have "0 \<le> m" by simp
    from setMax_preserves_inv[OF inv this] SetMaxResource show ?thesis
      by (simp add: mutate_SetMax)
  qed
next
  show "\<forall>p k m now pd c. mu = SetMaxResource p k m now \<and> s (UserId p) = Some pd \<and>
             resources pd k = Some c \<and> m < c \<longrightarrow>
             (\<exists>pd'. mutate rnd metaRecord s mu (UserId p) = Some pd' \<and>
                resources pd' k = Some m \<and> maxResources pd' k = Some m)"
    using setMax_clamps_down by (auto simp: mutate_SetMax)
qed

lemma ledger0_inv: "ledger_inv ledger0"
  by (simp add: ledger_inv_def ledger0_def in_range_def nonneg_max_def)

theorem mutations_keep_range_witness:
  "ledger_inv ledger0 \<and> nonneg_ceiling (SetMaxResource alice ''Health'' 40 1) \<and>
   ledger_inv (mutate id meta0 ledger0 (SetMaxResource alice ''Health'' 40 1)) \<and>
   (\<exists>pd'. mutate id meta0 ledger0 (SetMaxResource alice ''Health'' 40 1) 1 = Some pd' \<and>
      resources pd' ''Health'' = Some 40 \<and> maxResources pd' ''Health'' = Some 40)"
proof -
  have c: "nonneg_ceiling (SetMaxResource alice ''Health'' 40 1)" by simp
  note t = mutations_keep_range[OF ledger0_inv c, of id meta0]
  have "\<exists>pd'. mutate id meta0 ledger0 (SetMaxResource alice ''Health'' 40 1) 1 = Some pd' \<and>
      resources pd' ''Health'' = Some 40 \<and> maxResources pd' ''Health'' = Some 40"
    by (simp add: mutate_SetMax setPlayerMaxResource_def ledger0_def alice_def)
  with t ledger0_inv c show ?thesis by blast
qed

subsection \<open>The handlers a mutation runs\<close>

lemma set_handlers:
  assumes rnd: "mono rnd"
    and ok: "setPlayerResource rnd metaRecord s p k v now = (True, s', evs)"
  shows "handlers_run rnd (metaRecord k \<noteq> None) s' evs (UserId p) k"
proof -
  from ok obtain pd m where pd: "s (UserId p) = Some pd" and m: "maxResources pd k = Some m"
    by (auto simp: setPlayerResource_def split: option.splits)
  let ?c = "max 0 (min v m)"
  from ok pd m have s': "s' = s(UserId p \<mapsto> pd\<lparr>resources := (resources pd)(k \<mapsto> ?c), lastUpdated := now\<rparr>)"
    and evs: "evs = onResourceChanged rnd metaRecord p k ?c m"
    by (simp_all add: setPlayerResource_def Let_def)
  have z: "(?c \<le> 0) = (?c = 0)" by auto
  have low: "m \<noteq> 0 \<and> ?c / m \<le> 2 / 10 \<longrightarrow> quotient_le (luau_div rnd ?c m) (rnd (2 / 10))"
  proof
    assume a: "m \<noteq> 0 \<and> ?c / m \<le> 2 / 10"
    then have "rnd (?c / m) \<le> rnd (2 / 10)" using rnd by (simp add: monoD)
    with a show "quotient_le (luau_div rnd ?c m) (rnd (2 / 10))" by (simp add: luau_div_def)
  qed
  show ?thesis
  proof (cases "metaRecord k")
    case None
    with m show ?thesis
      unfolding handlers_run_def s' evs
      by (auto simp: onResourceChanged_def getResourceMeta_def)
  next
    case (Some mt)
    with m z low show ?thesis
      unfolding handlers_run_def s' evs
      by (auto simp: onResourceChanged_def getResourceMeta_def)
  qed
qed

lemma modify_handlers:
  assumes "mono rnd" and "modifyPlayerResource rnd metaRecord s p k d now = (True, s', evs)"
  shows "handlers_run rnd (metaRecord k \<noteq> None) s' evs (UserId p) k"
proof -
  from assms(2) obtain c where c: "getPlayerResource s p k = (Some c, [])"
    by (auto simp: modifyPlayerResource_def getPlayerResource_def split: option.splits prod.splits)
  with assms(2) have "setPlayerResource rnd metaRecord s p k (c + d) now = (True, s', evs)"
    by (auto simp: modifyPlayerResource_def split: prod.splits)
  from set_handlers[OF assms(1) this] show ?thesis .
qed

lemma consume_handlers:
  assumes "mono rnd" and "consumeResource rnd metaRecord s p k a now = (True, s', evs)"
  shows "handlers_run rnd (metaRecord k \<noteq> None) s' evs (UserId p) k"
proof -
  from assms(2) have h: "hasEnoughResource s p k a = (True, [])"
    by (auto simp: consumeResource_def hasEnoughResource_def getPlayerResource_def
        split: option.splits prod.splits bool.splits)
  with assms(2) have "modifyPlayerResource rnd metaRecord s p k (- a) now = (True, s', evs)"
    by (auto simp: consumeResource_def split: prod.splits)
  from modify_handlers[OF assms(1) this] show ?thesis .
qed

lemma restore_handlers:
  assumes "mono rnd" and "restoreResource rnd metaRecord s p k now = (True, s', evs)"
  shows "handlers_run rnd (metaRecord k \<noteq> None) s' evs (UserId p) k"
proof -
  from assms(2) obtain m where "setPlayerResource rnd metaRecord s p k m now = (True, s', evs)"
    by (auto simp: restoreResource_def split: option.splits)
  from set_handlers[OF assms(1) this] show ?thesis .
qed

lemma spend_all_no_meta:
  "perform id no_meta ledger0 (SetResource alice ''Health'' 0 5) =
     (True, ledger_spent, [ResourceChanged 1 ''Health'' 0 100])"
  by (simp add: setPlayerResource_def onResourceChanged_def getResourceMeta_def
      ledger0_def ledger_spent_def alice_def no_meta_def Let_def)

text \<open>
  C3, as the spec states it, fails: the service publishes no event, its handlers only
  print, and they run only for a key with metadata. Here the key has none: the set to 0
  succeeds and stores 0, and the depletion handler does not run.
\<close>

theorem no_metadata_counterexample:
  "perform id no_meta ledger0 (SetResource alice ''Health'' 0 5) =
     (True, ledger_spent, [ResourceChanged 1 ''Health'' 0 100]) \<and>
   map_option (\<lambda>pd. resources pd ''Health'') (ledger_spent 1) = Some (Some 0)"
proof
  show "perform id no_meta ledger0 (SetResource alice ''Health'' 0 5) =
     (True, ledger_spent, [ResourceChanged 1 ''Health'' 0 100])"
    by (rule spend_all_no_meta)
  show "map_option (\<lambda>pd. resources pd ''Health'') (ledger_spent 1) = Some (Some 0)"
    by (simp add: ledger_spent_def)
qed

text \<open>
  C3, amended: after every successful set, modify, consume or restore, whatever the
  ledger was before, the changed line is printed with the stored value and maximum; for
  a key with metadata the depletion handler has run if and only if the value now stored
  is 0, and the low-resource handler has run whenever that value divided by the maximum
  is at most 0.2 (exactly when the test of the code on the doubles holds); for a key
  without metadata neither handler has run. Each call decides from the new value alone,
  so a call made while the condition already held runs the handler again.
\<close>

theorem resource_handlers_level_triggered:
  assumes rnd: "mono rnd"
    and val: "sets_value mu"
    and ok: "perform rnd metaRecord s mu = (True, s', evs)"
  shows "handlers_run rnd (metaRecord (mutation_key mu) \<noteq> None) s' evs
           (UserId (mutation_player mu)) (mutation_key mu)"
proof (cases mu)
  case (SetResource p k v now)
  with ok have "setPlayerResource rnd metaRecord s p k v now = (True, s', evs)" by simp
  from set_handlers[OF rnd this] SetResource show ?thesis by simp
next
  case (ModifyResource p k d now)
  with ok have "modifyPlayerResource rnd metaRecord s p k d now = (True, s', evs)" by simp
  from modify_handlers[OF rnd this] ModifyResource show ?thesis by simp
next
  case (ConsumeResource p k a now)
  with ok have "consumeResource rnd metaRecord s p k a now = (True, s', evs)" by simp
  from consume_handlers[OF rnd this] ConsumeResource show ?thesis by simp
next
  case (RestoreResource p k now)
  with ok have "restoreResource rnd metaRecord s p k now = (True, s', evs)" by simp
  from restore_handlers[OF rnd this] RestoreResource show ?thesis by simp
next
  case (SetMaxResource p k m now)
  with val show ?thesis by simp
qed

lemma consume_90:
  "perform id meta0 ledger0 (ConsumeResource alice ''Health'' 90 5) =
     (True, ledger1, [ResourceChanged 1 ''Health'' 10 100, LowResource 1 ''Health''])"
  by (simp add: consumeResource_def hasEnoughResource_def getPlayerResource_def
      modifyPlayerResource_def setPlayerResource_def onResourceChanged_def getResourceMeta_def
      luau_div_def ledger0_def ledger1_def alice_def meta0_def)

lemma consume_0:
  "perform id meta0 ledger1 (ConsumeResource alice ''Health'' 0 5) =
     (True, ledger1, [ResourceChanged 1 ''Health'' 10 100, LowResource 1 ''Health''])"
  by (simp add: consumeResource_def hasEnoughResource_def getPlayerResource_def
      modifyPlayerResource_def setPlayerResource_def onResourceChanged_def getResourceMeta_def
      luau_div_def ledger1_def alice_def meta0_def)

theorem resource_handlers_level_triggered_witness:
  "mono (id :: real \<Rightarrow> real) \<and> sets_value (ConsumeResource alice ''Health'' 90 5) \<and>
   meta0 ''Health'' \<noteq> None \<and>
   perform id meta0 ledger0 (ConsumeResource alice ''Health'' 90 5) =
     (True, ledger1, [ResourceChanged 1 ''Health'' 10 100, LowResource 1 ''Health'']) \<and>
   perform id meta0 ledger1 (ConsumeResource alice ''Health'' 0 5) =
     (True, ledger1, [ResourceChanged 1 ''Health'' 10 100, LowResource 1 ''Health'']) \<and>
   handlers_run id True ledger1 [ResourceChanged 1 ''Health'' 10 100, LowResource 1 ''Health''] 1 ''Health'' \<and>
   perform id no_meta ledger0 (SetResource alice ''Health'' 0 5) =
     (True, ledger_spent, [ResourceChanged 1 ''Health'' 0 100]) \<and>
   handlers_run id False ledger_spent [ResourceChanged 1 ''Health'' 0 100] 1 ''Health''"
proof -
  have r: "mono (id :: real \<Rightarrow> real)" by (simp add: mono_def)
  have m: "meta0 ''Health'' \<noteq> None" by (simp add: meta0_def)
  have v: "sets_value (ConsumeResource alice ''Health'' 90 5)" by simp
  from resource_handlers_level_triggered[OF r v consume_90] m
  have a: "handlers_run id True ledger1 [ResourceChanged 1 ''Health'' 10 100, LowResource 1 ''Health''] 1 ''Health''"
    by (simp add: alice_def)
  have v2: "sets_value (SetResource alice ''Health'' 0 5)" by simp
  from resource_handlers_level_triggered[OF r v2 spend_all_no_meta]
  have b: "handlers_run id False ledger_spent [ResourceChanged 1 ''Health'' 0 100] 1 ''Health''"
    by (simp add: alice_def no_meta_def)
  from r m v consume_90 consume_0 a b spend_all_no_meta show ?thesis by simp
qed

section \<open>Properties of the NPCService\<close>












text \<open>
  C10: \<open>damageNPC\<close> on an id with no stored NPC, or on an NPC that is not alive, returns
  false at once: the store is the same, no death handling starts and no loot line is
  printed.
\<close>

theorem damage_dead_or_missing:
  assumes "spawnedNPCs s npcId = None \<or> (\<exists>npc. spawnedNPCs s npcId = Some npc \<and> \<not> isAlive npc)"
  shows "damageNPC metaMap s npcId damage = (Returned False, s, [])"
  using assms by (auto simp: damageNPC_def)



theorem damage_dead_or_missing_witness:
  "spawnedNPCs graveyard 1 = Some dead_zombie \<and> \<not> isAlive dead_zombie \<and>
   damageNPC metaMap0 graveyard 1 25 = (Returned False, graveyard, []) \<and>
   spawnedNPCs graveyard 7 = None \<and>
   damageNPC metaMap0 graveyard 7 25 = (Returned False, graveyard, [])"
proof -
  have a: "spawnedNPCs graveyard 1 = Some dead_zombie" by (simp add: graveyard_def)
  have b: "\<not> isAlive dead_zombie" by (simp add: dead_zombie_def)
  have c: "spawnedNPCs graveyard 7 = None" by (simp add: graveyard_def)
  from a b have "spawnedNPCs graveyard 1 = None \<or>
      (\<exists>npc. spawnedNPCs graveyard 1 = Some npc \<and> \<not> isAlive npc)" by blast
  from damage_dead_or_missing[OF this, of metaMap0 25]
  have d: "damageNPC metaMap0 graveyard 1 25 = (Returned False, graveyard, [])" .
  from c have "spawnedNPCs graveyard 7 = None \<or>
      (\<exists>npc. spawnedNPCs graveyard 7 = Some npc \<and> \<not> isAlive npc)" by blast
  from damage_dead_or_missing[OF this, of metaMap0 25]
  have e: "damageNPC metaMap0 graveyard 7 25 = (Returned False, graveyard, [])" .
  from a b c d e show ?thesis by blast
qed

section \<open>Properties of the EventService\<close>









section \<open>Properties of the PlayerDataService\<close>

text \<open>
  C9: the code does not do what the claim says. The load of a player with nothing stored
  takes the branch for existing data, since \<open>savedData\<close> is the table of results and a
  table is truthy, and returns that table with \<open>lastLogin\<close> set: it has no level and no
  experience, and the default profile is never made. The save that follows raises in
  \<open>updatePlayTime\<close>, where the table has no \<open>totalPlayTime\<close>. The load of a stored
  profile returns the table of results too, not the profile in it.
\<close>

theorem load_returns_results_table:
  "dataStore empty_store (UserId bob) = None \<and>
   fst (loadPlayerData empty_store bob False 5 5) = Some (ResultsTable None (Some 5)) \<and>
   level_of (ResultsTable None (Some 5)) = None \<and>
   experience_of (ResultsTable None (Some 5)) = None \<and>
   savePlayerData (snd (loadPlayerData empty_store bob False 5 5)) bob False 9 9 = Inl ArithmeticOnNil \<and>
   dataStore bob_store (UserId bob) = Some (ProfileTable bob_profile) \<and>
   level_of (ProfileTable bob_profile) = Some 7 \<and>
   fst (loadPlayerData bob_store bob False 5 5) =
     Some (ResultsTable (Some (ProfileTable bob_profile)) (Some 5)) \<and>
   level_of (ResultsTable (Some (ProfileTable bob_profile)) (Some 5)) = None"
  by (simp add: loadPlayerData_def savePlayerData_def updatePlayTime_def empty_store_def
      bob_store_def bob_def bob_profile_def Let_def)

section \<open>Properties of the timed stores\<close>

lemma create_loot:
  assumes "createLootDrop s item q pos T = (d, s1)"
  shows "loot_id d = nextLootId s" "nextLootId s1 = Suc (nextLootId s)"
    "activeLootDrops s1 (loot_id d) = Some d" "expiresAt d = T + LOOT_EXPIRE_TIME"
  using assms by (auto simp: createLootDrop_def Let_def)

lemma loot_step_keeps:
  assumes "activeLootDrops s i = Some d" and "i < nextLootId s" and "keeps_loot i (expiresAt d) a"
  shows "activeLootDrops (loot_step s a) i = Some d \<and> i < nextLootId (loot_step s a)"
  using assms
  by (cases a) (auto simp: createLootDrop_def collectLoot_def cleanupExpiredLoot_def Let_def
      split: option.splits)

lemma loot_run_keeps:
  assumes "activeLootDrops s i = Some d" and "i < nextLootId s"
    and "list_all (keeps_loot i (expiresAt d)) acts"
  shows "activeLootDrops (loot_run s acts) i = Some d"
  using assms unfolding loot_run_def
proof (induction acts arbitrary: s)
  case Nil
  then show ?case by simp
next
  case (Cons a acts)
  from Cons.prems have k: "keeps_loot i (expiresAt d) a" and r: "list_all (keeps_loot i (expiresAt d)) acts"
    by simp_all
  from loot_step_keeps[OF Cons.prems(1,2) k] Cons.IH[OF _ _ r, of "loot_step s a"]
  show ?case by simp
qed

lemma loot_step_absent:
  assumes "activeLootDrops s i = None" and "i < nextLootId s"
  shows "activeLootDrops (loot_step s a) i = None \<and> i < nextLootId (loot_step s a)"
  using assms
  by (cases a) (auto simp: createLootDrop_def collectLoot_def cleanupExpiredLoot_def Let_def
      split: option.splits)

lemma loot_run_absent:
  assumes "activeLootDrops s i = None" and "i < nextLootId s"
  shows "activeLootDrops (loot_run s acts) i = None"
  using assms unfolding loot_run_def
proof (induction acts arbitrary: s)
  case Nil
  then show ?case by simp
next
  case (Cons a acts)
  from loot_step_absent[OF Cons.prems, of a] Cons.IH[of "loot_step s a"]
  show ?case by simp
qed

lemma loot_step_same_or_gone:
  assumes "activeLootDrops s i = None \<or> activeLootDrops s i = Some d" and "i < nextLootId s"
  shows "(activeLootDrops (loot_step s a) i = None \<or> activeLootDrops (loot_step s a) i = Some d) \<and>
         i < nextLootId (loot_step s a)"
  using assms
  by (cases a) (auto simp: createLootDrop_def collectLoot_def cleanupExpiredLoot_def Let_def
      split: option.splits)

lemma loot_run_same_or_gone:
  assumes "activeLootDrops s i = None \<or> activeLootDrops s i = Some d" and "i < nextLootId s"
  shows "(activeLootDrops (loot_run s acts) i = None \<or> activeLootDrops (loot_run s acts) i = Some d) \<and>
         i < nextLootId (loot_run s acts)"
  using assms unfolding loot_run_def
proof (induction acts arbitrary: s)
  case Nil
  then show ?case by simp
next
  case (Cons a acts)
  from loot_step_same_or_gone[OF Cons.prems, of a] Cons.IH[of "loot_step s a"]
  show ?case by simp
qed

lemma loot_sweep_due:
  assumes "activeLootDrops s i = None \<or> activeLootDrops s i = Some d" and "expiresAt d \<le> now"
  shows "activeLootDrops (cleanupExpiredLoot s now) i = None"
  using assms by (auto simp: cleanupExpiredLoot_def)

lemma loot_lifetime:
  assumes c: "createLootDrop s item q pos T = (d, s1)"
  shows "expiresAt d = T + 60 \<and>
     (\<forall>acts. list_all (keeps_loot (loot_id d) (T + 60)) acts \<longrightarrow>
        activeLootDrops (loot_run s1 acts) (loot_id d) = Some d) \<and>
     (\<forall>acts now acts'. T + 60 \<le> now \<longrightarrow>
        activeLootDrops (loot_run (cleanupExpiredLoot (loot_run s1 acts) now) acts') (loot_id d) = None)"
proof (intro conjI allI impI)
  note f = create_loot[OF c]
  show e: "expiresAt d = T + 60" using f(4) by (simp add: LOOT_EXPIRE_TIME_def)
  have lt: "loot_id d < nextLootId s1" using f(1,2) by simp
  {
    fix acts
    assume "list_all (keeps_loot (loot_id d) (T + 60)) acts"
    with e have "list_all (keeps_loot (loot_id d) (expiresAt d)) acts" by simp
    from loot_run_keeps[OF f(3) lt this]
    show "activeLootDrops (loot_run s1 acts) (loot_id d) = Some d" .
  }
  {
    fix acts now acts'
    assume "T + 60 \<le> now"
    with e have due: "expiresAt d \<le> now" by simp
    from f(3) have "activeLootDrops s1 (loot_id d) = None \<or> activeLootDrops s1 (loot_id d) = Some d"
      by simp
    from loot_run_same_or_gone[OF this lt, of acts]
    have g: "activeLootDrops (loot_run s1 acts) (loot_id d) = None \<or>
             activeLootDrops (loot_run s1 acts) (loot_id d) = Some d"
      and l: "loot_id d < nextLootId (loot_run s1 acts)" by simp_all
    from loot_sweep_due[OF g due]
    have n: "activeLootDrops (cleanupExpiredLoot (loot_run s1 acts) now) (loot_id d) = None" .
    have "loot_id d < nextLootId (cleanupExpiredLoot (loot_run s1 acts) now)"
      using l by (simp add: cleanupExpiredLoot_def)
    from loot_run_absent[OF n this]
    show "activeLootDrops (loot_run (cleanupExpiredLoot (loot_run s1 acts) now) acts') (loot_id d) = None" .
  }
qed

lemma add_history_queue: "messageQueue (addToPlayerHistory s pid m) = messageQueue s"
  by (simp add: addToPlayerHistory_def Let_def)

lemma add_histories_queue:
  "messageQueue (foldl (\<lambda>st player. addToPlayerHistory st (UserId player) m) s players) = messageQueue s"
  by (induction players arbitrary: s) (simp_all add: add_history_queue)

lemma send_queue:
  "messageQueue (snd (sendMessageToPlayer metaColor s p newId t0 T c t sev)) =
     (messageQueue s)(newId \<mapsto>
        \<lparr>message = createMessage metaColor newId t0 c t sev, recipientId = Some (UserId p),
         msg_expiresAt = T + MESSAGE_EXPIRE_TIME\<rparr>)"
  by (simp add: sendMessageToPlayer_def Let_def add_history_queue createMessage_def)

lemma broadcast_queue:
  "messageQueue (snd (broadcastMessage metaColor s online newId t0 T c t sev)) =
     (messageQueue s)(newId \<mapsto>
        \<lparr>message = createMessage metaColor newId t0 c t sev, recipientId = None,
         msg_expiresAt = T + MESSAGE_EXPIRE_TIME\<rparr>)"
  by (simp add: broadcastMessage_def Let_def add_histories_queue createMessage_def)

lemma message_step_keeps:
  assumes "messageQueue s mid = Some qm"
    and "keeps_message mid (recipientId qm) (msg_expiresAt qm) a"
  shows "messageQueue (message_step metaColor s a) mid = Some qm"
proof (cases a)
  case (SendTo player newId now1 now2 c t sev)
  with assms show ?thesis by (simp add: send_queue)
next
  case (Broadcast online newId now1 now2 c t sev)
  with assms show ?thesis by (simp add: broadcast_queue)
next
  case (Cancel c)
  with assms show ?thesis by (simp add: cancelMessage_def)
next
  case (ClearHistory player)
  with assms show ?thesis by (simp add: clearPlayerMessageHistory_def)
next
  case (CleanupPlayer player)
  with assms show ?thesis by (auto simp: cleanupPlayerMessages_def)
next
  case (SweepMessages now)
  with assms show ?thesis by (simp add: cleanupExpiredMessages_def)
qed

lemma message_run_keeps:
  assumes "messageQueue s mid = Some qm"
    and "list_all (keeps_message mid (recipientId qm) (msg_expiresAt qm)) acts"
  shows "messageQueue (message_run metaColor s acts) mid = Some qm"
  using assms unfolding message_run_def
proof (induction acts arbitrary: s)
  case Nil
  then show ?case by simp
next
  case (Cons a acts)
  from Cons.prems have k: "keeps_message mid (recipientId qm) (msg_expiresAt qm) a"
    and r: "list_all (keeps_message mid (recipientId qm) (msg_expiresAt qm)) acts" by simp_all
  from message_step_keeps[OF Cons.prems(1) k, of metaColor] Cons.IH[OF _ r, of "message_step metaColor s a"]
  show ?case by simp
qed

lemma message_sweep_due:
  assumes "messageQueue s mid = Some qm" and "msg_expiresAt qm \<le> now"
  shows "messageQueue (cleanupExpiredMessages s now) mid = None"
  using assms by (simp add: cleanupExpiredMessages_def)

lemma message_lifetime:
  assumes "messageQueue m1 mid = Some qm" and "msg_expiresAt qm = due" and "recipientId qm = rcp"
  shows "\<forall>acts. list_all (keeps_message mid rcp due) acts \<longrightarrow>
           getMessage (message_run metaColor m1 acts) mid = Some qm \<and>
           (\<forall>now. due \<le> now \<longrightarrow>
              getMessage (cleanupExpiredMessages (message_run metaColor m1 acts) now) mid = None)"
proof (intro allI impI conjI)
  fix acts
  assume "list_all (keeps_message mid rcp due) acts"
  with assms have "list_all (keeps_message mid (recipientId qm) (msg_expiresAt qm)) acts" by simp
  from message_run_keeps[OF assms(1) this]
  show k: "getMessage (message_run metaColor m1 acts) mid = Some qm" by (simp add: getMessage_def)
  fix now
  assume "due \<le> now"
  with assms(2) have "msg_expiresAt qm \<le> now" by simp
  from message_sweep_due[OF _ this, of "message_run metaColor m1 acts" mid] k
  show "getMessage (cleanupExpiredMessages (message_run metaColor m1 acts) now) mid = None"
    by (simp add: getMessage_def)
qed

text \<open>
  C6: a loot drop created at time \<open>T\<close> is due at \<open>T + 60\<close>, and a message sent or
  broadcast at time \<open>T\<close> is due at \<open>T + 300\<close>. After any actions that do not remove the
  entry (no collect or cancel of it, no cleanup of its recipient, no later message under
  its id) and whose sweeps all run before it is due, the store holds the entry as it was
  created; and the next sweep, at or after the time it is due, removes it. A loot drop
  that a sweep found due is never in the store again.
\<close>

theorem timed_entries_live_until_due:
  "(\<forall>d s1. createLootDrop s item q pos T = (d, s1) \<longrightarrow>
      expiresAt d = T + 60 \<and>
      (\<forall>acts. list_all (keeps_loot (loot_id d) (T + 60)) acts \<longrightarrow>
         activeLootDrops (loot_run s1 acts) (loot_id d) = Some d) \<and>
      (\<forall>acts now acts'. T + 60 \<le> now \<longrightarrow>
         activeLootDrops (loot_run (cleanupExpiredLoot (loot_run s1 acts) now) acts') (loot_id d) = None)) \<and>
   (\<forall>mid m1. sendMessageToPlayer metaColor ms p newId t0 T c t sev = (mid, m1) \<longrightarrow>
      mid = newId \<and>
      (\<exists>qm. getMessage m1 mid = Some qm \<and> msg_expiresAt qm = T + 300 \<and>
         (\<forall>acts. list_all (keeps_message mid (Some (UserId p)) (T + 300)) acts \<longrightarrow>
            getMessage (message_run metaColor m1 acts) mid = Some qm \<and>
            (\<forall>now. T + 300 \<le> now \<longrightarrow>
               getMessage (cleanupExpiredMessages (message_run metaColor m1 acts) now) mid = None)))) \<and>
   (\<forall>mid m1. broadcastMessage metaColor ms online newId t0 T c t sev = (mid, m1) \<longrightarrow>
      mid = newId \<and>
      (\<exists>qm. getMessage m1 mid = Some qm \<and> msg_expiresAt qm = T + 300 \<and>
         (\<forall>acts. list_all (keeps_message mid None (T + 300)) acts \<longrightarrow>
            getMessage (message_run metaColor m1 acts) mid = Some qm \<and>
            (\<forall>now. T + 300 \<le> now \<longrightarrow>
               getMessage (cleanupExpiredMessages (message_run metaColor m1 acts) now) mid = None))))"
proof (intro conjI)
  show "\<forall>d s1. createLootDrop s item q pos T = (d, s1) \<longrightarrow>
      expiresAt d = T + 60 \<and>
      (\<forall>acts. list_all (keeps_loot (loot_id d) (T + 60)) acts \<longrightarrow>
         activeLootDrops (loot_run s1 acts) (loot_id d) = Some d) \<and>
      (\<forall>acts now acts'. T + 60 \<le> now \<longrightarrow>
         activeLootDrops (loot_run (cleanupExpiredLoot (loot_run s1 acts) now) acts') (loot_id d) = None)"
    using loot_lifetime by blast
next
  show "\<forall>mid m1. sendMessageToPlayer metaColor ms p newId t0 T c t sev = (mid, m1) \<longrightarrow>
      mid = newId \<and>
      (\<exists>qm. getMessage m1 mid = Some qm \<and> msg_expiresAt qm = T + 300 \<and>
         (\<forall>acts. list_all (keeps_message mid (Some (UserId p)) (T + 300)) acts \<longrightarrow>
            getMessage (message_run metaColor m1 acts) mid = Some qm \<and>
            (\<forall>now. T + 300 \<le> now \<longrightarrow>
               getMessage (cleanupExpiredMessages (message_run metaColor m1 acts) now) mid = None)))"
  proof (intro allI impI)
    fix mid m1
    assume a: "sendMessageToPlayer metaColor ms p newId t0 T c t sev = (mid, m1)"
    let ?qm = "\<lparr>message = createMessage metaColor newId t0 c t sev, recipientId = Some (UserId p),
         msg_expiresAt = T + MESSAGE_EXPIRE_TIME\<rparr>"
    from a have i: "mid = newId" by (simp add: sendMessageToPlayer_def Let_def createMessage_def)
    from a send_queue[of metaColor ms p newId t0 T c t sev] i
    have q: "messageQueue m1 mid = Some ?qm" by simp
    have e: "msg_expiresAt ?qm = T + 300" by (simp add: MESSAGE_EXPIRE_TIME_def)
    have r: "recipientId ?qm = Some (UserId p)" by simp
    from message_lifetime[OF q e r, of metaColor] q e i
    show "mid = newId \<and>
      (\<exists>qm. getMessage m1 mid = Some qm \<and> msg_expiresAt qm = T + 300 \<and>
         (\<forall>acts. list_all (keeps_message mid (Some (UserId p)) (T + 300)) acts \<longrightarrow>
            getMessage (message_run metaColor m1 acts) mid = Some qm \<and>
            (\<forall>now. T + 300 \<le> now \<longrightarrow>
               getMessage (cleanupExpiredMessages (message_run metaColor m1 acts) now) mid = None)))"
      unfolding getMessage_def by blast
  qed
next
  show "\<forall>mid m1. broadcastMessage metaColor ms online newId t0 T c t sev = (mid, m1) \<longrightarrow>
      mid = newId \<and>
      (\<exists>qm. getMessage m1 mid = Some qm \<and> msg_expiresAt qm = T + 300 \<and>
         (\<forall>acts. list_all (keeps_message mid None (T + 300)) acts \<longrightarrow>
            getMessage (message_run metaColor m1 acts) mid = Some qm \<and>
            (\<forall>now. T + 300 \<le> now \<longrightarrow>
               getMessage (cleanupExpiredMessages (message_run metaColor m1 acts) now) mid = None)))"
  proof (intro allI impI)
    fix mid m1
    assume a: "broadcastMessage metaColor ms online newId t0 T c t sev = (mid, m1)"
    let ?qm = "\<lparr>message = createMessage metaColor newId t0 c t sev, recipientId = None,
         msg_expiresAt = T + MESSAGE_EXPIRE_TIME\<rparr>"
    from a have i: "mid = newId" by (simp add: broadcastMessage_def Let_def createMessage_def)
    from a broadcast_queue[of metaColor ms online newId t0 T c t sev] i
    have q: "messageQueue m1 mid = Some ?qm" by simp
    have e: "msg_expiresAt ?qm = T + 300" by (simp add: MESSAGE_EXPIRE_TIME_def)
    have r: "recipientId ?qm = None" by simp
    from message_lifetime[OF q e r, of metaColor] q e i
    show "mid = newId \<and>
      (\<exists>qm. getMessage m1 mid = Some qm \<and> msg_expiresAt qm = T + 300 \<and>
         (\<forall>acts. list_all (keeps_message mid None (T + 300)) acts \<longrightarrow>
            getMessage (message_run metaColor m1 acts) mid = Some qm \<and>
            (\<forall>now. T + 300 \<le> now \<longrightarrow>
               getMessage (cleanupExpiredMessages (message_run metaColor m1 acts) now) mid = None)))"
      unfolding getMessage_def by blast
  qed
qed

lemma create_gold: "createLootDrop newLootService ''gold'' 3 origin 100 = (gold_drop, loot1)"
  by (simp add: createLootDrop_def newLootService_def gold_drop_def loot1_def LOOT_EXPIRE_TIME_def
      Let_def numeral_2_eq_2)

lemma send_hello:
  "sendMessageToPlayer Map.empty empty_box alice ''m1'' 100 100 ''hi'' ''Hello'' ''info'' = (''m1'', box1)"
  by (simp add: sendMessageToPlayer_def createMessage_def addToPlayerHistory_def empty_box_def
      box1_def hello_queued_def hello_def alice_def MESSAGE_EXPIRE_TIME_def
      MAX_HISTORY_PER_PLAYER_def Let_def)

theorem timed_entries_live_until_due_witness:
  "createLootDrop newLootService ''gold'' 3 origin 100 = (gold_drop, loot1) \<and>
   list_all (keeps_loot 1 160) loot_acts0 \<and>
   activeLootDrops (loot_run loot1 loot_acts0) 1 = Some gold_drop \<and>
   activeLootDrops (loot_run (cleanupExpiredLoot (loot_run loot1 loot_acts0) 160) []) 1 = None \<and>
   sendMessageToPlayer Map.empty empty_box alice ''m1'' 100 100 ''hi'' ''Hello'' ''info'' = (''m1'', box1) \<and>
   list_all (keeps_message ''m1'' (Some 1) 400) message_acts0 \<and>
   getMessage (message_run Map.empty box1 message_acts0) ''m1'' = Some hello_queued \<and>
   getMessage (cleanupExpiredMessages (message_run Map.empty box1 message_acts0) 400) ''m1'' = None"
proof -
  note t = timed_entries_live_until_due[of newLootService "''gold''" 3 origin 100
      Map.empty empty_box alice "''m1''" 100 "''hi''" "''Hello''" "''info''"]
  have id: "loot_id gold_drop = 1" by (simp add: gold_drop_def)
  have k: "list_all (keeps_loot 1 160) loot_acts0" by (simp add: loot_acts0_def)
  from t create_gold have
    l1: "\<forall>acts. list_all (keeps_loot (loot_id gold_drop) (100 + 60)) acts \<longrightarrow>
           activeLootDrops (loot_run loot1 acts) (loot_id gold_drop) = Some gold_drop" and
    l2: "\<forall>acts now acts'. 100 + 60 \<le> now \<longrightarrow>
           activeLootDrops (loot_run (cleanupExpiredLoot (loot_run loot1 acts) now) acts')
             (loot_id gold_drop) = None"
    by blast+
  from l1 k id have a: "activeLootDrops (loot_run loot1 loot_acts0) 1 = Some gold_drop" by simp
  from l2 id have b: "activeLootDrops (loot_run (cleanupExpiredLoot (loot_run loot1 loot_acts0) 160) []) 1 = None"
    by simp
  have km: "list_all (keeps_message ''m1'' (Some 1) 400) message_acts0"
    by (simp add: message_acts0_def)
  have q: "getMessage box1 ''m1'' = Some hello_queued" by (simp add: getMessage_def box1_def)
  from t send_hello obtain qm where
    g: "getMessage box1 ''m1'' = Some qm" and
    m1: "\<forall>acts. list_all (keeps_message ''m1'' (Some (UserId alice)) (100 + 300)) acts \<longrightarrow>
            getMessage (message_run Map.empty box1 acts) ''m1'' = Some qm \<and>
            (\<forall>now. 100 + 300 \<le> now \<longrightarrow>
               getMessage (cleanupExpiredMessages (message_run Map.empty box1 acts) now) ''m1'' = None)"
    by blast
  from g q have qm: "qm = hello_queued" by simp
  have u: "UserId alice = 1" by (simp add: alice_def)
  from m1 km u qm have
    c: "getMessage (message_run Map.empty box1 message_acts0) ''m1'' = Some hello_queued" and
    d: "getMessage (cleanupExpiredMessages (message_run Map.empty box1 message_acts0) 400) ''m1'' = None"
    by simp_all
  from create_gold k a b send_hello km c d show ?thesis by blast
qed

section \<open>Properties of the MessageService history\<close>











end
